theory Spec2Isabelle
  imports Complex_Main
begin

section \<open>Schema registry (plot.py, lines 45--115)\<close>

text \<open>
  \<^verbatim>\<open>COLS\<close> is a Python dict literal from metric name to 0-based column index. It is
  kept as the association list of the literal, in source order; \<open>COLS_get\<close> is the
  dict lookup (\<open>None\<close> where Python raises \<^verbatim>\<open>KeyError\<close>). The list
  \<^verbatim>\<open>SINGLES_IN_ORDER\<close> of the source is never read by the program and is left out.
\<close>

definition COLS :: "(string \<times> nat) list" where
  "COLS = [
    (''time'', 0),
    (''max_tmp'', 1),
    (''rtt_100x_ms'', 2), (''rttvar_ms'', 3), (''rto_100x_ms'', 4), (''ato_100x_ms'', 5),
    (''pacing_rate_norm'', 6), (''delivery_rate_norm'', 7),
    (''snd_ssthresh'', 8), (''ca_state'', 9),

    (''rtt_s_avg'', 10), (''rtt_s_min'', 11), (''rtt_s_max'', 12),
    (''rtt_m_avg'', 13), (''rtt_m_min'', 14), (''rtt_m_max'', 15),
    (''rtt_l_avg'', 16), (''rtt_l_min'', 17), (''rtt_l_max'', 18),

    (''thr_s_avg'', 19), (''thr_s_min'', 20), (''thr_s_max'', 21),
    (''thr_m_avg'', 22), (''thr_m_min'', 23), (''thr_m_max'', 24),
    (''thr_l_avg'', 25), (''thr_l_min'', 26), (''thr_l_max'', 27),

    (''rtt_rate_s_avg'', 28), (''rtt_rate_s_min'', 29), (''rtt_rate_s_max'', 30),
    (''rtt_rate_m_avg'', 31), (''rtt_rate_m_min'', 32), (''rtt_rate_m_max'', 33),
    (''rtt_rate_l_avg'', 34), (''rtt_rate_l_min'', 35), (''rtt_rate_l_max'', 36),

    (''rtt_var_s_avg'', 37), (''rtt_var_s_min'', 38), (''rtt_var_s_max'', 39),
    (''rtt_var_m_avg'', 40), (''rtt_var_m_min'', 41), (''rtt_var_m_max'', 42),
    (''rtt_var_l_avg'', 43), (''rtt_var_l_min'', 44), (''rtt_var_l_max'', 45),

    (''inflight_s_avg'', 46), (''inflight_s_min'', 47), (''inflight_s_max'', 48),
    (''inflight_m_avg'', 49), (''inflight_m_min'', 50), (''inflight_m_max'', 51),
    (''inflight_l_avg'', 52), (''inflight_l_min'', 53), (''inflight_l_max'', 54),

    (''lost_s_avg'', 55), (''lost_s_min'', 56), (''lost_s_max'', 57),
    (''lost_m_avg'', 58), (''lost_m_min'', 59), (''lost_m_max'', 60),
    (''lost_l_avg'', 61), (''lost_l_min'', 62), (''lost_l_max'', 63),

    (''dr_minus_loss'', 64),
    (''time_delta_norm'', 65),
    (''rtt_rate_scalar'', 66),
    (''loss_norm'', 67),
    (''acked_rate_norm'', 68),
    (''dr_w_ratio'', 69),
    (''queue_delay_proxy'', 70),
    (''dr_w_norm'', 71),
    (''cwnd_unacked_rate'', 72),
    (''dr_w_max_ratio'', 73),
    (''dr_w_max_norm'', 74),
    (''reward'', 75),
    (''cwnd_rate'', 76)
  ]"

definition COLS_get :: "string \<Rightarrow> nat option" where
  "COLS_get key = map_of COLS key"

definition TRIPLETS :: "(string \<times> string) list" where
  "TRIPLETS = [
    (''rtt_s'', ''ms (avg/min/max)''),
    (''rtt_m'', ''ms (avg/min/max)''),
    (''rtt_l'', ''ms (avg/min/max)''),

    (''thr_s'', ''norm (avg/min/max)''),
    (''thr_m'', ''norm (avg/min/max)''),
    (''thr_l'', ''norm (avg/min/max)''),

    (''rtt_rate_s'', ''1/s (avg/min/max)''),
    (''rtt_rate_m'', ''1/s (avg/min/max)''),
    (''rtt_rate_l'', ''1/s (avg/min/max)''),

    (''rtt_var_s'', ''ms (avg/min/max)''),
    (''rtt_var_m'', ''ms (avg/min/max)''),
    (''rtt_var_l'', ''ms (avg/min/max)''),

    (''inflight_s'', ''k pkts (avg/min/max)''),
    (''inflight_m'', ''k pkts (avg/min/max)''),
    (''inflight_l'', ''k pkts (avg/min/max)''),

    (''lost_s'', ''x/100 (avg/min/max)''),
    (''lost_m'', ''x/100 (avg/min/max)''),
    (''lost_l'', ''x/100 (avg/min/max)'')
  ]"

text \<open>The three registry names a triplet base refers to and whether they sit on
  adjacent columns in the order avg, min, max.\<close>

definition triplet_adjacent :: "string \<Rightarrow> bool" where
  "triplet_adjacent base =
     (case COLS_get (base @ ''_avg'') of
        None \<Rightarrow> False
      | Some i \<Rightarrow> COLS_get (base @ ''_min'') = Some (i + 1)
                \<and> COLS_get (base @ ''_max'') = Some (i + 2))"


section \<open>Exceptions and text helpers\<close>

text \<open>
  Every \<^verbatim>\<open>raise\<close> of the program and of the library calls it makes is a value of
  \<open>exn\<close>; a computation that may raise returns \<open>exn + 'a\<close> with \<open>Inl\<close> the exception.
  \<open>exn_str\<close> is Python's \<^verbatim>\<open>str(e)\<close>, \<open>exn_name\<close> the class name.
\<close>

datatype exn =
    FileNotFoundError string
  | ValueError string
  | IndexError string
  | KeyError string
  | NameError string
  | OSError string

definition quote :: string where
  "quote = [CHR 0x27]"

fun exn_str :: "exn \<Rightarrow> string" where
  "exn_str (FileNotFoundError m) = m"
| "exn_str (ValueError m) = m"
| "exn_str (IndexError m) = m"
| "exn_str (KeyError k) = quote @ k @ quote"
| "exn_str (NameError m) = m"
| "exn_str (OSError m) = m"

fun exn_name :: "exn \<Rightarrow> string" where
  "exn_name (FileNotFoundError m) = ''FileNotFoundError''"
| "exn_name (ValueError m) = ''ValueError''"
| "exn_name (IndexError m) = ''IndexError''"
| "exn_name (KeyError k) = ''KeyError''"
| "exn_name (NameError m) = ''NameError''"
| "exn_name (OSError m) = ''OSError''"

definition bindE :: "exn + 'a \<Rightarrow> ('a \<Rightarrow> exn + 'b) \<Rightarrow> exn + 'b" where
  "bindE m f = (case m of Inl e \<Rightarrow> Inl e | Inr x \<Rightarrow> f x)"

text \<open>Decimal rendering of a non-negative integer, as an f-string prints it.\<close>

definition digit_char :: "nat \<Rightarrow> char" where
  "digit_char d = ''0123456789'' ! d"

function str_nat :: "nat \<Rightarrow> string" where
  "str_nat n = (if n < 10 then [digit_char n] else str_nat (n div 10) @ [digit_char (n mod 10)])"
  by pat_completeness auto
termination
  by (relation "measure (\<lambda>n. n)") auto

declare str_nat.simps [simp del]

text \<open>The UTF-8 bytes of the two non-ASCII characters the program prints.\<close>

definition ge_sign :: string where
  "ge_sign = [CHR 0xE2, CHR 0x89, CHR 0xA5]"

definition em_dash :: string where
  "em_dash = [CHR 0xE2, CHR 0x80, CHR 0x94]"

section \<open>Arrays and the text reader\<close>

text \<open>
  A numeric array of dimension 0, 1 or 2. \<open>Arr2 c rows\<close> has shape
  \<open>(length rows, c)\<close>; the column count is kept because an array may have no rows.
  Cells are double-precision values in the program; the program never computes with
  them, so they are modelled as reals.
\<close>

datatype ndarray = Arr0 real | Arr1 "real list" | Arr2 nat "real list list"

fun shape :: "ndarray \<Rightarrow> nat list" where
  "shape (Arr0 v) = []"
| "shape (Arr1 xs) = [length xs]"
| "shape (Arr2 c rows) = [length rows, c]"

definition ndim :: "ndarray \<Rightarrow> nat" where
  "ndim a = length (shape a)"

text \<open>\<^verbatim>\<open>a.shape[i]\<close>: indexing the shape tuple raises past its end.\<close>

definition shape_at :: "ndarray \<Rightarrow> nat \<Rightarrow> exn + nat" where
  "shape_at a i =
     (if i < length (shape a) then Inr (shape a ! i)
      else Inl (IndexError ''tuple index out of range''))"

text \<open>\<^verbatim>\<open>a.reshape(1, -1)\<close>: one row holding every cell in row-major order.\<close>

fun reshape_1_m1 :: "ndarray \<Rightarrow> ndarray" where
  "reshape_1_m1 (Arr0 v) = Arr2 1 [[v]]"
| "reshape_1_m1 (Arr1 xs) = Arr2 (length xs) [xs]"
| "reshape_1_m1 (Arr2 c rows) = Arr2 (length rows * c) [concat rows]"

text \<open>
  \<^verbatim>\<open>np.loadtxt(path, dtype=float)\<close> is a library call. It is modelled from the library's
  documented behaviour with its default arguments, in two steps.

  First the library opens the path through its data source: it looks the file up,
  picks a decompressor from the extension of the file name (\<^verbatim>\<open>.gz\<close>, \<^verbatim>\<open>.bz2\<close>,
  \<^verbatim>\<open>.xz\<close>) and decodes the bytes as text. A missing or unreadable file, a file that is
  not in the format its extension names and bytes that do not decode each raise. This
  step is the parameter \<open>open_text\<close>: for every path, the exception that opening and
  reading it raises, or the text that it yields. Nothing is assumed about how the text
  relates to the stored bytes. A text is a list of characters, one per code point;
  code points above 255 are not represented.

  Then the text is read line by line (a line feed or a carriage return ends a line):
  a \<^verbatim>\<open>#\<close> starts a comment, fields are separated by runs of whitespace (every
  character Python counts as whitespace), lines without fields are skipped, every
  field is converted to a float, every line must have as many fields as the first one,
  and axes of length one are removed from the result (\<^verbatim>\<open>ndmin=0\<close>). The string-to-float
  conversion is the parameter \<open>conv\<close> (\<open>None\<close> for a field that is not a number).
  The warning the library issues for a file without data is not modelled.
\<close>

definition is_newline :: "char \<Rightarrow> bool" where
  "is_newline c \<longleftrightarrow> c = CHR 0x0A \<or> c = CHR 0x0D"

text \<open>The whitespace characters below 256 other than the two line ends: tab,
  vertical tab, form feed, the four separators 0x1C to 0x1F, space, next line (0x85)
  and no-break space (0xA0).\<close>

definition is_space :: "char \<Rightarrow> bool" where
  "is_space c \<longleftrightarrow>
     c = CHR 0x09 \<or> c = CHR 0x0B \<or> c = CHR 0x0C
     \<or> c = CHR 0x1C \<or> c = CHR 0x1D \<or> c = CHR 0x1E \<or> c = CHR 0x1F
     \<or> c = CHR 0x20 \<or> c = CHR 0x85 \<or> c = CHR 0xA0"

fun split_at :: "(char \<Rightarrow> bool) \<Rightarrow> string \<Rightarrow> string list" where
  "split_at sep [] = [[]]"
| "split_at sep (c # cs) =
     (if sep c then [] # split_at sep cs
      else (case split_at sep cs of [] \<Rightarrow> [[c]] | w # ws \<Rightarrow> (c # w) # ws))"

definition line_fields :: "string \<Rightarrow> string list" where
  "line_fields line = filter (\<lambda>w. w \<noteq> []) (split_at is_space (takeWhile (\<lambda>c. c \<noteq> CHR 0x23) line))"

definition data_lines :: "string \<Rightarrow> string list list" where
  "data_lines content = filter (\<lambda>ws. ws \<noteq> []) (map line_fields (split_at is_newline content))"

fun convert_fields :: "(string \<Rightarrow> real option) \<Rightarrow> nat \<Rightarrow> nat \<Rightarrow> string list \<Rightarrow> exn + real list" where
  "convert_fields conv r c [] = Inr []"
| "convert_fields conv r c (w # ws) =
     (case conv w of
        None \<Rightarrow> Inl (ValueError (''could not convert string '' @ quote @ w @ quote
                  @ '' to float64 at row '' @ str_nat r @ '', column '' @ str_nat (c + 1) @ ''.''))
      | Some v \<Rightarrow> bindE (convert_fields conv r (c + 1) ws) (\<lambda>vs. Inr (v # vs)))"

fun read_rows :: "(string \<Rightarrow> real option) \<Rightarrow> nat \<Rightarrow> nat \<Rightarrow> string list list \<Rightarrow> exn + real list list" where
  "read_rows conv n r [] = Inr []"
| "read_rows conv n r (ws # rest) =
     (if length ws \<noteq> n
      then Inl (ValueError (''the number of columns changed from '' @ str_nat n @ '' to ''
                  @ str_nat (length ws) @ '' at row '' @ str_nat (r + 1)
                  @ ''; use `usecols` to select a subset and avoid this error''))
      else bindE (convert_fields conv r 0 ws) (\<lambda>vs.
           bindE (read_rows conv n (r + 1) rest) (\<lambda>vss. Inr (vs # vss))))"

text \<open>The two-dimensional array the reader builds before removing axes: its column
  count and its rows. A file without data lines gives zero rows of one column.\<close>

definition parse_table :: "(string \<Rightarrow> real option) \<Rightarrow> string \<Rightarrow> exn + (nat \<times> real list list)" where
  "parse_table conv content =
     (let ls = data_lines content;
          n = (case ls of [] \<Rightarrow> 1 | ws # _ \<Rightarrow> length ws)
      in bindE (read_rows conv n 0 ls) (\<lambda>cells. Inr (n, cells)))"

text \<open>\<^verbatim>\<open>np.squeeze\<close> of an array of shape \<open>(length rows, c)\<close>.\<close>

definition squeeze :: "nat \<Rightarrow> real list list \<Rightarrow> ndarray" where
  "squeeze c rows =
     (if length rows = 1 \<and> c = 1 then Arr0 (hd (hd rows))
      else if length rows = 1 then Arr1 (hd rows)
      else if c = 1 then Arr1 (map hd rows)
      else Arr2 c rows)"

definition loadtxt :: "(string \<Rightarrow> real option) \<Rightarrow> (string \<Rightarrow> exn + string) \<Rightarrow> string \<Rightarrow> exn + ndarray" where
  "loadtxt conv open_text path =
     bindE (open_text path) (\<lambda>content.
     bindE (parse_table conv content) (\<lambda>(n, cells). Inr (squeeze n cells)))"

section \<open>Loader, validator, accessor (plot.py, lines 144--164)\<close>

text \<open>
  \<^verbatim>\<open>load_data\<close> either returns the array or prints one line to the error stream and
  calls \<^verbatim>\<open>sys.exit(1)\<close>: the result is \<open>Inl\<close> the exit status or \<open>Inr\<close> the array,
  paired with the lines written to the error stream.
\<close>

definition load_data :: "(string \<Rightarrow> real option) \<Rightarrow> (string \<Rightarrow> exn + string) \<Rightarrow> string \<Rightarrow> (nat + ndarray) \<times> string list" where
  "load_data conv open_text path =
     (case loadtxt conv open_text path of
        Inr data \<Rightarrow> (Inr (if ndim data = 1 then reshape_1_m1 data else data), [])
      | Inl e \<Rightarrow> (Inl 1, [''Error reading '' @ quote @ path @ quote @ '': '' @ exn_str e]))"

definition needed :: nat where
  "needed = Max (set (map snd COLS))"

definition ensure_cols :: "ndarray \<Rightarrow> exn + unit" where
  "ensure_cols data =
     bindE (shape_at data 1) (\<lambda>ncols.
       if ncols \<le> needed
       then Inl (ValueError (''File has '' @ str_nat ncols @ '' cols; expected '' @ ge_sign @ '' ''
                   @ str_nat (needed + 1) @ '' from the C++ logger.''))
       else Inr ())"

text \<open>\<^verbatim>\<open>data[:, COLS[key]]\<close>: the dict lookup first, then the column of a
  two-dimensional array; any other array has too few axes.\<close>

definition pick :: "ndarray \<Rightarrow> string \<Rightarrow> exn + real list" where
  "pick data key =
     (case COLS_get key of
        None \<Rightarrow> Inl (KeyError key)
      | Some j \<Rightarrow>
          (case data of
             Arr2 c rows \<Rightarrow>
               if j < c then Inr (map (\<lambda>row. row ! j) rows)
               else Inl (IndexError (''index '' @ str_nat j @ '' is out of bounds for axis 1 with size '' @ str_nat c))
           | _ \<Rightarrow> Inl (IndexError ''too many indices for array'')))"


section \<open>Charts (the plotting library's objects)\<close>

text \<open>
  What the program asks the plotting library to draw is recorded as data. A \<open>line2d\<close>
  is one plotted series: its x and y data, its line style (no format string is the
  library's solid line, \<^verbatim>\<open>"--"\<close> dashed, \<^verbatim>\<open>":"\<close> dotted), its draw style and its
  legend label. An \<open>axes\<close> is one chart of a page, a \<open>figure\<close> one page.
\<close>

datatype linestyle = Solid | Dashed | Dotted

datatype drawstyle = Default | StepsPost

record line2d =
  xdata :: "real list"
  ydata :: "real list"
  style :: linestyle
  draw :: drawstyle
  label :: "string option"

record axes =
  lines :: "line2d list"
  ylabel :: string
  xlabel :: string
  grid_on :: bool
  legend_on :: bool

record figure =
  suptitle :: string
  axs :: "axes list"

definition new_axes :: axes where
  "new_axes = \<lparr>lines = [], ylabel = [], xlabel = [], grid_on = False, legend_on = False\<rparr>"

text \<open>\<^verbatim>\<open>ax.plot(x, y, fmt, label=...)\<close>; the library refuses series of different lengths.\<close>

definition ax_plot :: "real list \<Rightarrow> real list \<Rightarrow> linestyle \<Rightarrow> string option \<Rightarrow> axes \<Rightarrow> exn + axes" where
  "ax_plot x y fmt lbl ax =
     (if length x \<noteq> length y
      then Inl (ValueError ''x and y must have same first dimension'')
      else Inr (ax\<lparr>lines := lines ax @ [\<lparr>xdata = x, ydata = y, style = fmt, draw = Default, label = lbl\<rparr>]\<rparr>))"

text \<open>\<^verbatim>\<open>ax.step(x, y, where="post")\<close>: a plot with draw style steps-post.\<close>

definition ax_step_post :: "real list \<Rightarrow> real list \<Rightarrow> axes \<Rightarrow> exn + axes" where
  "ax_step_post x y ax =
     (if length x \<noteq> length y
      then Inl (ValueError ''x and y must have same first dimension'')
      else Inr (ax\<lparr>lines := lines ax @ [\<lparr>xdata = x, ydata = y, style = Solid, draw = StepsPost, label = None\<rparr>]\<rparr>))"

definition set_ylabel :: "string \<Rightarrow> axes \<Rightarrow> axes" where
  "set_ylabel s ax = ax\<lparr>ylabel := s\<rparr>"

definition set_xlabel :: "string \<Rightarrow> axes \<Rightarrow> axes" where
  "set_xlabel s ax = ax\<lparr>xlabel := s\<rparr>"

definition grid :: "axes \<Rightarrow> axes" where
  "grid ax = ax\<lparr>grid_on := True\<rparr>"

definition legend :: "axes \<Rightarrow> axes" where
  "legend ax = ax\<lparr>legend_on := True\<rparr>"

text \<open>
  The vertices of the path the library draws for a series. Draw style steps-post
  turns the points \<open>(x0,y0), (x1,y1), (x2,y2), ...\<close> into
  \<open>(x0,y0), (x1,y0), (x1,y1), (x2,y1), (x2,y2), ...\<close>; the default draw style joins
  the points themselves.
\<close>

fun pts_to_poststep :: "(real \<times> real) list \<Rightarrow> (real \<times> real) list" where
  "pts_to_poststep [] = []"
| "pts_to_poststep [p] = [p]"
| "pts_to_poststep ((x0, y0) # (x1, y1) # ps) = (x0, y0) # (x1, y0) # pts_to_poststep ((x1, y1) # ps)"

definition path_vertices :: "line2d \<Rightarrow> (real \<times> real) list" where
  "path_vertices l =
     (case draw l of
        Default \<Rightarrow> zip (xdata l) (ydata l)
      | StepsPost \<Rightarrow> pts_to_poststep (zip (xdata l) (ydata l)))"

text \<open>Whether a point lies on the straight stroke between two vertices.\<close>

definition on_segment :: "real \<times> real \<Rightarrow> real \<times> real \<Rightarrow> real \<times> real \<Rightarrow> bool" where
  "on_segment p q r \<longleftrightarrow>
     (fst q - fst p) * (snd r - snd p) = (snd q - snd p) * (fst r - fst p)
     \<and> min (fst p) (fst q) \<le> fst r \<and> fst r \<le> max (fst p) (fst q)
     \<and> min (snd p) (snd q) \<le> snd r \<and> snd r \<le> max (snd p) (snd q)"

section \<open>Report builder (plot.py, lines 167--286)\<close>

text \<open>
  The module-level variable \<^verbatim>\<open>data\<close>: unbound until \<^verbatim>\<open>main\<close> assigns it.
\<close>

record globals =
  global_data :: "ndarray option"

definition read_global_data :: "globals \<Rightarrow> exn + ndarray" where
  "read_global_data g =
     (case global_data g of
        None \<Rightarrow> Inl (NameError ''name 'data' is not defined'')
      | Some d \<Rightarrow> Inr d)"

text \<open>
  \<^verbatim>\<open>plot_triplet(ax, t, base_key, ylabel)\<close> mutates \<open>ax\<close>; the model returns the new
  axes. The table is not a parameter: each of the three \<^verbatim>\<open>pick(data, ...)\<close> calls
  reads the global.
\<close>

definition plot_triplet :: "globals \<Rightarrow> axes \<Rightarrow> real list \<Rightarrow> string \<Rightarrow> string \<Rightarrow> exn + axes" where
  "plot_triplet g ax t base_key yl =
     bindE (read_global_data g) (\<lambda>d1.
     bindE (pick d1 (base_key @ ''_avg'')) (\<lambda>y1.
     bindE (ax_plot t y1 Solid (Some (base_key @ '' avg'')) ax) (\<lambda>ax1.
     bindE (read_global_data g) (\<lambda>d2.
     bindE (pick d2 (base_key @ ''_min'')) (\<lambda>y2.
     bindE (ax_plot t y2 Dashed (Some (base_key @ '' min'')) ax1) (\<lambda>ax2.
     bindE (read_global_data g) (\<lambda>d3.
     bindE (pick d3 (base_key @ ''_max'')) (\<lambda>y3.
     bindE (ax_plot t y3 Dotted (Some (base_key @ '' max'')) ax2) (\<lambda>ax3.
     Inr (legend (grid (set_ylabel yl ax3))))))))))))"

text \<open>\<^verbatim>\<open>page(fig_title, rows)\<close>: a figure of \<open>rows\<close> stacked empty charts.\<close>

definition page :: "string \<Rightarrow> nat \<Rightarrow> figure" where
  "page fig_title rows = \<lparr>suptitle = fig_title, axs = replicate rows new_axes\<rparr>"

text \<open>
  A statement of \<^verbatim>\<open>main\<close> that works on \<^verbatim>\<open>axes[i]\<close>: the chart is replaced by the
  one the statement leaves; an index past the end raises. \<open>at_last\<close> is \<^verbatim>\<open>axes[-1]\<close>.
\<close>

definition at_axis :: "nat \<Rightarrow> (axes \<Rightarrow> exn + axes) \<Rightarrow> figure \<Rightarrow> exn + figure" where
  "at_axis i f fig =
     (if i < length (axs fig)
      then bindE (f (axs fig ! i)) (\<lambda>ax. Inr (fig\<lparr>axs := (axs fig)[i := ax]\<rparr>))
      else Inl (IndexError ''index out of bounds''))"

definition at_last :: "(axes \<Rightarrow> exn + axes) \<Rightarrow> figure \<Rightarrow> exn + figure" where
  "at_last f fig =
     (if axs fig = [] then Inl (IndexError ''index out of bounds'')
      else at_axis (length (axs fig) - 1) f fig)"

text \<open>
  The statement sequence
  \<^verbatim>\<open>ax.plot(t, pick(data, key)); ax.set_ylabel(yl); ax.grid(True, lw=0.3, alpha=0.7)\<close>
  that \<^verbatim>\<open>main\<close> repeats for every single-series chart; \<open>data\<close> is the global there.
\<close>

definition plot_single :: "globals \<Rightarrow> real list \<Rightarrow> string \<Rightarrow> string \<Rightarrow> axes \<Rightarrow> exn + axes" where
  "plot_single g t key yl ax =
     bindE (read_global_data g) (\<lambda>d.
     bindE (pick d key) (\<lambda>y.
     bindE (ax_plot t y Solid None ax) (\<lambda>ax1.
     Inr (grid (set_ylabel yl ax1)))))"

text \<open>The loop \<^verbatim>\<open>for ax, key in zip(axes, keys): ...\<close> with that body and the key as
  label: it stops at the shorter of the two sequences.\<close>

fun plot_each :: "globals \<Rightarrow> real list \<Rightarrow> axes list \<Rightarrow> string list \<Rightarrow> exn + axes list" where
  "plot_each g t [] keys = Inr []"
| "plot_each g t (ax # rest) [] = Inr (ax # rest)"
| "plot_each g t (ax # rest) (key # keys) =
     bindE (plot_single g t key key ax) (\<lambda>ax1.
     bindE (plot_each g t rest keys) (\<lambda>rest1. Inr (ax1 # rest1)))"

definition xlabel_time :: "axes \<Rightarrow> exn + axes" where
  "xlabel_time ax = Inr (set_xlabel ''time (s)'' ax)"

definition page1 :: "globals \<Rightarrow> real list \<Rightarrow> string \<Rightarrow> exn + figure" where
  "page1 g t title_suffix =
     bindE (at_axis 0 (\<lambda>ax. plot_triplet g ax t ''rtt_rate_s'' ''Short grad (1/s)'')
              (page (''Headline: Gradients & Reward '' @ em_dash @ '' '' @ title_suffix) 5)) (\<lambda>f1.
     bindE (at_axis 1 (\<lambda>ax. plot_triplet g ax t ''rtt_rate_m'' ''Med grad (1/s)'') f1) (\<lambda>f2.
     bindE (at_axis 2 (\<lambda>ax. plot_triplet g ax t ''rtt_rate_l'' ''Long grad (1/s)'') f2) (\<lambda>f3.
     bindE (at_axis 3 (plot_single g t ''rtt_rate_scalar'' ''rtt_rate scalar'') f3) (\<lambda>f4.
     bindE (at_axis 4 (\<lambda>ax. bindE (plot_single g t ''reward'' ''reward'' ax) xlabel_time) f4) Inr))))"

definition page2 :: "globals \<Rightarrow> real list \<Rightarrow> exn + figure" where
  "page2 g t =
     (let fig = page ''Base TCP / pacing / delivery'' 6;
          singles = [''rtt_100x_ms'', ''rttvar_ms'', ''rto_100x_ms'', ''ato_100x_ms'',
                     ''pacing_rate_norm'', ''delivery_rate_norm'']
      in bindE (plot_each g t (axs fig) singles) (\<lambda>axes1.
         at_last xlabel_time (fig\<lparr>axs := axes1\<rparr>)))"

definition page3 :: "globals \<Rightarrow> real list \<Rightarrow> exn + figure" where
  "page3 g t =
     bindE (at_axis 0 (plot_single g t ''snd_ssthresh'' ''snd_ssthresh'') (page ''Congestion state'' 3)) (\<lambda>f1.
     bindE (at_axis 1 (\<lambda>ax.
              bindE (read_global_data g) (\<lambda>d.
              bindE (pick d ''ca_state'') (\<lambda>y.
              bindE (ax_step_post t y ax) (\<lambda>ax1.
              Inr (grid (set_ylabel ''ca_state'' ax1)))))) f1) (\<lambda>f2.
     bindE (at_axis 2 (\<lambda>ax. bindE (plot_single g t ''cwnd_rate'' ''cwnd_rate'' ax) xlabel_time) f2) Inr))"

text \<open>Pages 4 to 9 are six copies of one block: three triplet charts on
  \<^verbatim>\<open>axes[0..2]\<close>, then the x-axis label on the last chart.\<close>

fun triplet_page :: "globals \<Rightarrow> real list \<Rightarrow> string \<Rightarrow> string \<times> string \<Rightarrow> string \<times> string \<Rightarrow> string \<times> string \<Rightarrow> exn + figure" where
  "triplet_page g t fig_title (b0, y0) (b1, y1) (b2, y2) =
     bindE (at_axis 0 (\<lambda>ax. plot_triplet g ax t b0 y0) (page fig_title 3)) (\<lambda>f1.
     bindE (at_axis 1 (\<lambda>ax. plot_triplet g ax t b1 y1) f1) (\<lambda>f2.
     bindE (at_axis 2 (\<lambda>ax. plot_triplet g ax t b2 y2) f2) (\<lambda>f3.
     at_last xlabel_time f3)))"

definition page4 :: "globals \<Rightarrow> real list \<Rightarrow> exn + figure" where
  "page4 g t = triplet_page g t ''RTT smoothed windows''
     (''rtt_s'', ''RTT short (ms)'') (''rtt_m'', ''RTT med (ms)'') (''rtt_l'', ''RTT long (ms)'')"

definition page5 :: "globals \<Rightarrow> real list \<Rightarrow> exn + figure" where
  "page5 g t = triplet_page g t ''Throughput (normalized) windows''
     (''thr_s'', ''thr short (norm)'') (''thr_m'', ''thr med (norm)'') (''thr_l'', ''thr long (norm)'')"

definition page6 :: "globals \<Rightarrow> real list \<Rightarrow> exn + figure" where
  "page6 g t = triplet_page g t ''RTT gradient windows''
     (''rtt_rate_s'', ''grad short (1/s)'') (''rtt_rate_m'', ''grad med (1/s)'')
     (''rtt_rate_l'', ''grad long (1/s)'')"

definition page7 :: "globals \<Rightarrow> real list \<Rightarrow> exn + figure" where
  "page7 g t = triplet_page g t ''RTT variance windows''
     (''rtt_var_s'', ''rttvar short (ms)'') (''rtt_var_m'', ''rttvar med (ms)'')
     (''rtt_var_l'', ''rttvar long (ms)'')"

definition page8 :: "globals \<Rightarrow> real list \<Rightarrow> exn + figure" where
  "page8 g t = triplet_page g t ''Inflight windows''
     (''inflight_s'', ''inflight short (k pkts)'') (''inflight_m'', ''inflight med (k pkts)'')
     (''inflight_l'', ''inflight long (k pkts)'')"

definition page9 :: "globals \<Rightarrow> real list \<Rightarrow> exn + figure" where
  "page9 g t = triplet_page g t ''Loss windows''
     (''lost_s'', ''lost short (x/100)'') (''lost_m'', ''lost med (x/100)'')
     (''lost_l'', ''lost long (x/100)'')"

definition tail_keys :: "string list" where
  "tail_keys = [
     ''dr_minus_loss'', ''time_delta_norm'', ''rtt_rate_scalar'', ''loss_norm'', ''acked_rate_norm'',
     ''dr_w_ratio'', ''queue_delay_proxy'', ''dr_w_norm'', ''cwnd_unacked_rate'',
     ''dr_w_max_ratio'', ''dr_w_max_norm'', ''reward'', ''max_tmp'']"

definition page10 :: "globals \<Rightarrow> real list \<Rightarrow> exn + figure" where
  "page10 g t =
     (let fig = page ''Tail metrics'' 7;
          rows = length (axs fig)
      in bindE (plot_each g t (axs fig) (take rows tail_keys)) (\<lambda>axes1.
         at_last xlabel_time (fig\<lparr>axs := axes1\<rparr>)))"


text \<open>
  \<^verbatim>\<open>str.rfind\<close> of one character (\<open>-1\<close> when absent), and the two path functions of
  the standard library that \<^verbatim>\<open>main\<close> calls, for POSIX paths:
  \<^verbatim>\<open>os.path.splitext(p)[0]\<close> cuts at the last dot of the last component unless only
  dots precede it there, \<^verbatim>\<open>os.path.basename(p)\<close> is what follows the last slash.
\<close>

definition rfind :: "char \<Rightarrow> string \<Rightarrow> int" where
  "rfind c s = (case filter (\<lambda>i. s ! i = c) (rev [0..<length s]) of [] \<Rightarrow> -1 | i # _ \<Rightarrow> int i)"

definition splitext_root :: "string \<Rightarrow> string" where
  "splitext_root p =
     (let sepIndex = rfind (CHR 0x2F) p;
          dotIndex = rfind (CHR 0x2E) p
      in if dotIndex > sepIndex
            \<and> list_ex (\<lambda>k. p ! k \<noteq> CHR 0x2E) [nat (sepIndex + 1)..<nat dotIndex]
         then take (nat dotIndex) p
         else p)"

definition basename :: "string \<Rightarrow> string" where
  "basename p = drop (nat (rfind (CHR 0x2F) p + 1)) p"

text \<open>The parsed command line: the positional \<^verbatim>\<open>file\<close> and the optional \<^verbatim>\<open>--out\<close>.\<close>

record namespace =
  arg_file :: string
  arg_out :: "string option"

text \<open>\<^verbatim>\<open>args.out or (os.path.splitext(args.file)[0] + "_all_metrics.pdf")\<close>: an absent
  and an empty \<^verbatim>\<open>--out\<close> are both falsy.\<close>

definition out_path_of :: "namespace \<Rightarrow> string" where
  "out_path_of a =
     (case arg_out a of
        None \<Rightarrow> splitext_root (arg_file a) @ ''_all_metrics.pdf''
      | Some p \<Rightarrow> if p = [] then splitext_root (arg_file a) @ ''_all_metrics.pdf'' else p)"

text \<open>
  What one run leaves behind: the lines printed to standard output and to the error
  stream, the exit status, and the document at the output path (its pages in order),
  if the run got as far as opening it. The storage is taken to accept the document.
  An exception nobody catches ends the run with the interpreter's traceback on the
  error stream (its frame lines are left out) and status 1; the \<^verbatim>\<open>with\<close> block closes
  the document with the pages saved so far.
\<close>

record outcome =
  stdout :: "string list"
  stderr :: "string list"
  exit_status :: nat
  document :: "(string \<times> figure list) option"

definition traceback :: "exn \<Rightarrow> string list" where
  "traceback e = [''Traceback (most recent call last):'', exn_name e @ '': '' @ exn_str e]"

definition uncaught :: "exn \<Rightarrow> (string \<times> figure list) option \<Rightarrow> outcome" where
  "uncaught e doc = \<lparr>stdout = [], stderr = traceback e, exit_status = 1, document = doc\<rparr>"

text \<open>The pages in program order, each followed by \<^verbatim>\<open>pdf.savefig(fig)\<close>: the pages
  saved and the exception that stopped the sequence, if any.\<close>

fun savefig_all :: "(exn + figure) list \<Rightarrow> figure list \<times> exn option" where
  "savefig_all [] = ([], None)"
| "savefig_all (Inl e # rest) = ([], Some e)"
| "savefig_all (Inr fig # rest) = (case savefig_all rest of (figs, r) \<Rightarrow> (fig # figs, r))"

definition main :: "(string \<Rightarrow> real option) \<Rightarrow> (string \<Rightarrow> exn + string) \<Rightarrow> namespace \<Rightarrow> outcome" where
  "main conv open_text a =
     (case load_data conv open_text (arg_file a) of
        (Inl status, err) \<Rightarrow> \<lparr>stdout = [], stderr = err, exit_status = status, document = None\<rparr>
      | (Inr data, err) \<Rightarrow>
          (let g = \<lparr>global_data = Some data\<rparr> in
           case ensure_cols data of
             Inl e \<Rightarrow> uncaught e None
           | Inr u \<Rightarrow>
               (let out_path = out_path_of a in
                case pick data ''time'' of
                  Inl e \<Rightarrow> uncaught e None
                | Inr t \<Rightarrow>
                    (let title_suffix = basename (arg_file a) in
                     case savefig_all [page1 g t title_suffix, page2 g t, page3 g t, page4 g t,
                                       page5 g t, page6 g t, page7 g t, page8 g t, page9 g t,
                                       page10 g t] of
                       (figs, Some e) \<Rightarrow> uncaught e (Some (out_path, figs))
                     | (figs, None) \<Rightarrow>
                         \<lparr>stdout = [''Wrote '' @ out_path], stderr = err, exit_status = 0,
                          document = Some (out_path, figs)\<rparr>))))"


section \<open>Facts about the registry\<close>

lemma COLS_keys_distinct: "distinct (map fst COLS)"
  by code_simp

lemma COLS_length: "length COLS = 77"
  by (simp add: COLS_def)

lemma COLS_values: "map snd COLS = [0..<77]"
  by (simp add: COLS_def upt_rec)

lemma COLS_get_nth: "i < length COLS \<Longrightarrow> COLS ! i = (k, v) \<Longrightarrow> COLS_get k = Some v"
  unfolding COLS_get_def using COLS_keys_distinct
  by (metis map_of_is_SomeI nth_mem)

text \<open>Every lookup the program makes, computed once.\<close>

lemma COLS_lookups:
  "COLS_get ''time'' = Some 0"
  "COLS_get ''max_tmp'' = Some 1"
  "COLS_get ''rtt_100x_ms'' = Some 2"
  "COLS_get ''rttvar_ms'' = Some 3"
  "COLS_get ''rto_100x_ms'' = Some 4"
  "COLS_get ''ato_100x_ms'' = Some 5"
  "COLS_get ''pacing_rate_norm'' = Some 6"
  "COLS_get ''delivery_rate_norm'' = Some 7"
  "COLS_get ''snd_ssthresh'' = Some 8"
  "COLS_get ''ca_state'' = Some 9"
  "COLS_get ''rtt_s_avg'' = Some 10"
  "COLS_get ''rtt_s_min'' = Some 11"
  "COLS_get ''rtt_s_max'' = Some 12"
  "COLS_get ''rtt_m_avg'' = Some 13"
  "COLS_get ''rtt_m_min'' = Some 14"
  "COLS_get ''rtt_m_max'' = Some 15"
  "COLS_get ''rtt_l_avg'' = Some 16"
  "COLS_get ''rtt_l_min'' = Some 17"
  "COLS_get ''rtt_l_max'' = Some 18"
  "COLS_get ''thr_s_avg'' = Some 19"
  "COLS_get ''thr_s_min'' = Some 20"
  "COLS_get ''thr_s_max'' = Some 21"
  "COLS_get ''thr_m_avg'' = Some 22"
  "COLS_get ''thr_m_min'' = Some 23"
  "COLS_get ''thr_m_max'' = Some 24"
  "COLS_get ''thr_l_avg'' = Some 25"
  "COLS_get ''thr_l_min'' = Some 26"
  "COLS_get ''thr_l_max'' = Some 27"
  "COLS_get ''rtt_rate_s_avg'' = Some 28"
  "COLS_get ''rtt_rate_s_min'' = Some 29"
  "COLS_get ''rtt_rate_s_max'' = Some 30"
  "COLS_get ''rtt_rate_m_avg'' = Some 31"
  "COLS_get ''rtt_rate_m_min'' = Some 32"
  "COLS_get ''rtt_rate_m_max'' = Some 33"
  "COLS_get ''rtt_rate_l_avg'' = Some 34"
  "COLS_get ''rtt_rate_l_min'' = Some 35"
  "COLS_get ''rtt_rate_l_max'' = Some 36"
  "COLS_get ''rtt_var_s_avg'' = Some 37"
  "COLS_get ''rtt_var_s_min'' = Some 38"
  "COLS_get ''rtt_var_s_max'' = Some 39"
  "COLS_get ''rtt_var_m_avg'' = Some 40"
  "COLS_get ''rtt_var_m_min'' = Some 41"
  "COLS_get ''rtt_var_m_max'' = Some 42"
  "COLS_get ''rtt_var_l_avg'' = Some 43"
  "COLS_get ''rtt_var_l_min'' = Some 44"
  "COLS_get ''rtt_var_l_max'' = Some 45"
  "COLS_get ''inflight_s_avg'' = Some 46"
  "COLS_get ''inflight_s_min'' = Some 47"
  "COLS_get ''inflight_s_max'' = Some 48"
  "COLS_get ''inflight_m_avg'' = Some 49"
  "COLS_get ''inflight_m_min'' = Some 50"
  "COLS_get ''inflight_m_max'' = Some 51"
  "COLS_get ''inflight_l_avg'' = Some 52"
  "COLS_get ''inflight_l_min'' = Some 53"
  "COLS_get ''inflight_l_max'' = Some 54"
  "COLS_get ''lost_s_avg'' = Some 55"
  "COLS_get ''lost_s_min'' = Some 56"
  "COLS_get ''lost_s_max'' = Some 57"
  "COLS_get ''lost_m_avg'' = Some 58"
  "COLS_get ''lost_m_min'' = Some 59"
  "COLS_get ''lost_m_max'' = Some 60"
  "COLS_get ''lost_l_avg'' = Some 61"
  "COLS_get ''lost_l_min'' = Some 62"
  "COLS_get ''lost_l_max'' = Some 63"
  "COLS_get ''dr_minus_loss'' = Some 64"
  "COLS_get ''time_delta_norm'' = Some 65"
  "COLS_get ''rtt_rate_scalar'' = Some 66"
  "COLS_get ''loss_norm'' = Some 67"
  "COLS_get ''acked_rate_norm'' = Some 68"
  "COLS_get ''dr_w_ratio'' = Some 69"
  "COLS_get ''queue_delay_proxy'' = Some 70"
  "COLS_get ''dr_w_norm'' = Some 71"
  "COLS_get ''cwnd_unacked_rate'' = Some 72"
  "COLS_get ''dr_w_max_ratio'' = Some 73"
  "COLS_get ''dr_w_max_norm'' = Some 74"
  "COLS_get ''reward'' = Some 75"
  "COLS_get ''cwnd_rate'' = Some 76"
  apply (rule COLS_get_nth [of 0]; simp add: COLS_def)
  apply (rule COLS_get_nth [of 1]; simp add: COLS_def)
  apply (rule COLS_get_nth [of 2]; simp add: COLS_def)
  apply (rule COLS_get_nth [of 3]; simp add: COLS_def)
  apply (rule COLS_get_nth [of 4]; simp add: COLS_def)
  apply (rule COLS_get_nth [of 5]; simp add: COLS_def)
  apply (rule COLS_get_nth [of 6]; simp add: COLS_def)
  apply (rule COLS_get_nth [of 7]; simp add: COLS_def)
  apply (rule COLS_get_nth [of 8]; simp add: COLS_def)
  apply (rule COLS_get_nth [of 9]; simp add: COLS_def)
  apply (rule COLS_get_nth [of 10]; simp add: COLS_def)
  apply (rule COLS_get_nth [of 11]; simp add: COLS_def)
  apply (rule COLS_get_nth [of 12]; simp add: COLS_def)
  apply (rule COLS_get_nth [of 13]; simp add: COLS_def)
  apply (rule COLS_get_nth [of 14]; simp add: COLS_def)
  apply (rule COLS_get_nth [of 15]; simp add: COLS_def)
  apply (rule COLS_get_nth [of 16]; simp add: COLS_def)
  apply (rule COLS_get_nth [of 17]; simp add: COLS_def)
  apply (rule COLS_get_nth [of 18]; simp add: COLS_def)
  apply (rule COLS_get_nth [of 19]; simp add: COLS_def)
  apply (rule COLS_get_nth [of 20]; simp add: COLS_def)
  apply (rule COLS_get_nth [of 21]; simp add: COLS_def)
  apply (rule COLS_get_nth [of 22]; simp add: COLS_def)
  apply (rule COLS_get_nth [of 23]; simp add: COLS_def)
  apply (rule COLS_get_nth [of 24]; simp add: COLS_def)
  apply (rule COLS_get_nth [of 25]; simp add: COLS_def)
  apply (rule COLS_get_nth [of 26]; simp add: COLS_def)
  apply (rule COLS_get_nth [of 27]; simp add: COLS_def)
  apply (rule COLS_get_nth [of 28]; simp add: COLS_def)
  apply (rule COLS_get_nth [of 29]; simp add: COLS_def)
  apply (rule COLS_get_nth [of 30]; simp add: COLS_def)
  apply (rule COLS_get_nth [of 31]; simp add: COLS_def)
  apply (rule COLS_get_nth [of 32]; simp add: COLS_def)
  apply (rule COLS_get_nth [of 33]; simp add: COLS_def)
  apply (rule COLS_get_nth [of 34]; simp add: COLS_def)
  apply (rule COLS_get_nth [of 35]; simp add: COLS_def)
  apply (rule COLS_get_nth [of 36]; simp add: COLS_def)
  apply (rule COLS_get_nth [of 37]; simp add: COLS_def)
  apply (rule COLS_get_nth [of 38]; simp add: COLS_def)
  apply (rule COLS_get_nth [of 39]; simp add: COLS_def)
  apply (rule COLS_get_nth [of 40]; simp add: COLS_def)
  apply (rule COLS_get_nth [of 41]; simp add: COLS_def)
  apply (rule COLS_get_nth [of 42]; simp add: COLS_def)
  apply (rule COLS_get_nth [of 43]; simp add: COLS_def)
  apply (rule COLS_get_nth [of 44]; simp add: COLS_def)
  apply (rule COLS_get_nth [of 45]; simp add: COLS_def)
  apply (rule COLS_get_nth [of 46]; simp add: COLS_def)
  apply (rule COLS_get_nth [of 47]; simp add: COLS_def)
  apply (rule COLS_get_nth [of 48]; simp add: COLS_def)
  apply (rule COLS_get_nth [of 49]; simp add: COLS_def)
  apply (rule COLS_get_nth [of 50]; simp add: COLS_def)
  apply (rule COLS_get_nth [of 51]; simp add: COLS_def)
  apply (rule COLS_get_nth [of 52]; simp add: COLS_def)
  apply (rule COLS_get_nth [of 53]; simp add: COLS_def)
  apply (rule COLS_get_nth [of 54]; simp add: COLS_def)
  apply (rule COLS_get_nth [of 55]; simp add: COLS_def)
  apply (rule COLS_get_nth [of 56]; simp add: COLS_def)
  apply (rule COLS_get_nth [of 57]; simp add: COLS_def)
  apply (rule COLS_get_nth [of 58]; simp add: COLS_def)
  apply (rule COLS_get_nth [of 59]; simp add: COLS_def)
  apply (rule COLS_get_nth [of 60]; simp add: COLS_def)
  apply (rule COLS_get_nth [of 61]; simp add: COLS_def)
  apply (rule COLS_get_nth [of 62]; simp add: COLS_def)
  apply (rule COLS_get_nth [of 63]; simp add: COLS_def)
  apply (rule COLS_get_nth [of 64]; simp add: COLS_def)
  apply (rule COLS_get_nth [of 65]; simp add: COLS_def)
  apply (rule COLS_get_nth [of 66]; simp add: COLS_def)
  apply (rule COLS_get_nth [of 67]; simp add: COLS_def)
  apply (rule COLS_get_nth [of 68]; simp add: COLS_def)
  apply (rule COLS_get_nth [of 69]; simp add: COLS_def)
  apply (rule COLS_get_nth [of 70]; simp add: COLS_def)
  apply (rule COLS_get_nth [of 71]; simp add: COLS_def)
  apply (rule COLS_get_nth [of 72]; simp add: COLS_def)
  apply (rule COLS_get_nth [of 73]; simp add: COLS_def)
  apply (rule COLS_get_nth [of 74]; simp add: COLS_def)
  apply (rule COLS_get_nth [of 75]; simp add: COLS_def)
  apply (rule COLS_get_nth [of 76]; simp add: COLS_def)
  done

declare COLS_lookups [simp]

lemma COLS_get_bound: "COLS_get k = Some v \<Longrightarrow> v \<le> 76"
proof -
  assume "COLS_get k = Some v"
  then have "(k, v) \<in> set COLS"
    by (simp add: COLS_get_def map_of_SomeD)
  then have "v \<in> set (map snd COLS)"
    by force
  then show ?thesis
    by (simp only: COLS_values) simp
qed

lemma needed_eq: "needed = 76"
proof -
  have "set (map snd COLS) = {0..<77}"
    by (simp only: COLS_values set_upt)
  moreover have "Max {0..<77::nat} = 76"
    by (rule Max_eqI) auto
  ultimately show ?thesis by (simp add: needed_def)
qed

lemma TRIPLETS_adjacent: "list_all (\<lambda>(base, unit). triplet_adjacent base) TRIPLETS"
  by (simp add: TRIPLETS_def triplet_adjacent_def)

section \<open>Facts about the building blocks\<close>

lemma bindE_Inr [simp]: "bindE (Inr x) f = f x"
  by (simp add: bindE_def)

lemma bindE_Inl [simp]: "bindE (Inl e) f = Inl e"
  by (simp add: bindE_def)

lemma pick_Arr2:
  "COLS_get key = Some j \<Longrightarrow> j < c \<Longrightarrow> pick (Arr2 c rows) key = Inr (map (\<lambda>row. row ! j) rows)"
  by (simp add: pick_def)

lemma plot_single_Arr2:
  assumes "global_data g = Some (Arr2 c rows)" "COLS_get key = Some j" "j < c" "length t = length rows"
  shows "plot_single g t key yl ax =
    Inr (ax\<lparr>lines := lines ax @ [\<lparr>xdata = t, ydata = map (\<lambda>row. row ! j) rows, style = Solid,
                                  draw = Default, label = None\<rparr>],
            ylabel := yl, grid_on := True\<rparr>)"
  using assms
  by (simp add: plot_single_def read_global_data_def pick_Arr2 ax_plot_def grid_def set_ylabel_def)

lemma plot_triplet_Arr2:
  assumes "global_data g = Some (Arr2 c rows)" "length t = length rows"
    and "COLS_get (base_key @ ''_avg'') = Some i" "i < c"
    and "COLS_get (base_key @ ''_min'') = Some j" "j < c"
    and "COLS_get (base_key @ ''_max'') = Some k" "k < c"
  shows "plot_triplet g ax t base_key yl =
    Inr (ax\<lparr>lines := lines ax @
              [\<lparr>xdata = t, ydata = map (\<lambda>row. row ! i) rows, style = Solid, draw = Default,
                label = Some (base_key @ '' avg'')\<rparr>,
               \<lparr>xdata = t, ydata = map (\<lambda>row. row ! j) rows, style = Dashed, draw = Default,
                label = Some (base_key @ '' min'')\<rparr>,
               \<lparr>xdata = t, ydata = map (\<lambda>row. row ! k) rows, style = Dotted, draw = Default,
                label = Some (base_key @ '' max'')\<rparr>],
            ylabel := yl, grid_on := True, legend_on := True\<rparr>)"
  using assms
  by (simp add: plot_triplet_def read_global_data_def pick_Arr2 ax_plot_def grid_def
      set_ylabel_def legend_def)


section \<open>The schema registry is a contiguous, triplet-adjacent layout\<close>

text \<open>
  Claim C7. The registry maps exactly 77 distinct names to column indices; the indices
  are pairwise different and are exactly 0..76 (in source order they count up from 0);
  and for each of the 18 triplet bases the entries \<open>base_avg\<close>, \<open>base_min\<close>,
  \<open>base_max\<close> exist and sit on three adjacent columns in that order.
\<close>

theorem schema_registry_layout:
  "length COLS = 77
   \<and> distinct (map fst COLS)
   \<and> card (dom COLS_get) = 77
   \<and> map snd COLS = [0..<77]
   \<and> distinct (map snd COLS)
   \<and> ran COLS_get = {0..76}
   \<and> list_all (\<lambda>(base, unit). triplet_adjacent base) TRIPLETS
   \<and> length TRIPLETS = 18"
proof (intro conjI)
  have eq: "COLS_get = map_of COLS"
    by (rule ext) (simp add: COLS_get_def)
  show "length COLS = 77" by (rule COLS_length)
  show "distinct (map fst COLS)" by (rule COLS_keys_distinct)
  have "dom COLS_get = set (map fst COLS)"
    by (simp add: eq dom_map_of_conv_image_fst)
  then show "card (dom COLS_get) = 77"
    using COLS_keys_distinct COLS_length by (simp only: distinct_card length_map)
  show "map snd COLS = [0..<77]" by (rule COLS_values)
  show "distinct (map snd COLS)"
    by (simp only: COLS_values distinct_upt)
  have "ran COLS_get = set (map snd COLS)"
    unfolding eq using COLS_keys_distinct by (simp only: ran_distinct set_map)
  also have "\<dots> = {0..<77}"
    by (simp only: COLS_values set_upt)
  also have "\<dots> = {0..76}"
    by (simp only: atLeastLessThanSuc_atLeastAtMost [of 0 76, symmetric]) simp
  finally show "ran COLS_get = {0..76}" .
  show "list_all (\<lambda>(base, unit). triplet_adjacent base) TRIPLETS"
    by (rule TRIPLETS_adjacent)
  show "length TRIPLETS = 18"
    by (simp add: TRIPLETS_def)
qed


section \<open>Validation passes exactly above the largest registry index\<close>

lemma str_nat_76: "str_nat 76 = ''76''"
  by (simp add: str_nat.simps digit_char_def)

lemma str_nat_77: "str_nat 77 = ''77''"
  by (simp add: str_nat.simps digit_char_def)

lemma ensure_cols_Arr2:
  "ensure_cols (Arr2 c rows) =
     (if needed < c then Inr ()
      else Inl (ValueError (''File has '' @ str_nat c @ '' cols; expected '' @ ge_sign @ '' ''
                  @ str_nat (needed + 1) @ '' from the C++ logger.'')))"
  by (simp add: ensure_cols_def shape_at_def)

text \<open>
  Claim C2. For a loaded table with \<open>c\<close> columns, \<open>ensure_cols\<close> passes exactly when
  \<open>c\<close> exceeds the largest index of the registry (76); otherwise it raises a
  \<^verbatim>\<open>ValueError\<close> whose message holds the actual count \<open>c\<close> and the required count
  (largest index + 1). With exactly 77 columns it passes; with 76 the message reads
  "File has 76 cols; expected (at least) 77 from the C++ logger.".
\<close>

theorem ensure_cols_threshold:
  "ensure_cols (Arr2 c rows) =
     (if needed < c then Inr ()
      else Inl (ValueError (''File has '' @ str_nat c @ '' cols; expected '' @ ge_sign @ '' ''
                  @ str_nat (needed + 1) @ '' from the C++ logger.'')))
   \<and> needed = Max (snd ` set COLS) \<and> needed = 76
   \<and> ensure_cols (Arr2 (needed + 1) rows) = Inr ()
   \<and> ensure_cols (Arr2 needed rows)
       = Inl (ValueError (''File has 76 cols; expected '' @ ge_sign @ '' 77 from the C++ logger.''))"
proof (intro conjI)
  show "ensure_cols (Arr2 c rows) =
     (if needed < c then Inr ()
      else Inl (ValueError (''File has '' @ str_nat c @ '' cols; expected '' @ ge_sign @ '' ''
                  @ str_nat (needed + 1) @ '' from the C++ logger.'')))"
    by (rule ensure_cols_Arr2)
  show "needed = Max (snd ` set COLS)"
    by (simp add: needed_def)
  show "needed = 76" by (rule needed_eq)
  show "ensure_cols (Arr2 (needed + 1) rows) = Inr ()"
    by (simp add: ensure_cols_Arr2)
  have "str_nat needed = ''76''" "str_nat (needed + 1) = ''77''"
    by (simp_all only: needed_eq str_nat_76) (simp add: str_nat_77)
  then show "ensure_cols (Arr2 needed rows)
       = Inl (ValueError (''File has 76 cols; expected '' @ ge_sign @ '' 77 from the C++ logger.''))"
    by (simp add: ensure_cols_Arr2)
qed


section \<open>Triplet charts\<close>

lemma TRIPLETS_cols:
  assumes "(base, unit) \<in> set TRIPLETS"
  shows "\<exists>i. COLS_get (base @ ''_avg'') = Some i \<and> COLS_get (base @ ''_min'') = Some (i + 1)
            \<and> COLS_get (base @ ''_max'') = Some (i + 2) \<and> i + 2 \<le> 76"
proof -
  from assms TRIPLETS_adjacent have "triplet_adjacent base"
    by (auto simp only: list_all_iff)
  then obtain i where i: "COLS_get (base @ ''_avg'') = Some i"
      "COLS_get (base @ ''_min'') = Some (i + 1)" "COLS_get (base @ ''_max'') = Some (i + 2)"
    by (auto simp add: triplet_adjacent_def split: option.splits)
  from COLS_get_bound [OF i(3)] i show ?thesis by blast
qed

text \<open>
  Claim C6. For every base name of \<open>TRIPLETS\<close> and a validated table,
  \<open>plot_triplet\<close> adds exactly three series to the chart, in the order average,
  minimum, maximum: the average solid, the minimum dashed, the maximum dotted, taken
  from three adjacent columns; it sets the y-label, the grid and the legend.
\<close>

theorem plot_triplet_three_series:
  assumes "(base, unit) \<in> set TRIPLETS"
    and "global_data g = Some (Arr2 c rows)" and "needed < c" and "length t = length rows"
  shows "\<exists>i. COLS_get (base @ ''_avg'') = Some i
            \<and> COLS_get (base @ ''_min'') = Some (i + 1)
            \<and> COLS_get (base @ ''_max'') = Some (i + 2)
            \<and> plot_triplet g ax t base yl =
                Inr (ax\<lparr>lines := lines ax @
                     [\<lparr>xdata = t, ydata = map (\<lambda>row. row ! i) rows, style = Solid, draw = Default,
                       label = Some (base @ '' avg'')\<rparr>,
                      \<lparr>xdata = t, ydata = map (\<lambda>row. row ! (i + 1)) rows, style = Dashed, draw = Default,
                       label = Some (base @ '' min'')\<rparr>,
                      \<lparr>xdata = t, ydata = map (\<lambda>row. row ! (i + 2)) rows, style = Dotted, draw = Default,
                       label = Some (base @ '' max'')\<rparr>],
                    ylabel := yl, grid_on := True, legend_on := True\<rparr>)"
proof -
  from TRIPLETS_cols [OF assms(1)] obtain i where i: "COLS_get (base @ ''_avg'') = Some i"
      "COLS_get (base @ ''_min'') = Some (i + 1)" "COLS_get (base @ ''_max'') = Some (i + 2)"
      "i + 2 \<le> 76"
    by blast
  from i(4) assms(3) have lt: "i < c" "i + 1 < c" "i + 2 < c"
    by (simp_all add: needed_eq)
  from plot_triplet_Arr2 [OF assms(2) assms(4) i(1) lt(1) i(2) lt(2) i(3) lt(3)] i
  show ?thesis by blast
qed

text \<open>The triplet \<open>rtt_s\<close> on a two-row table whose cells are the column numbers
  (second row: plus 100).\<close>

theorem plot_triplet_three_series_witness:
  "plot_triplet \<lparr>global_data = Some (Arr2 77 [map real [0..<77], map real [100..<177]])\<rparr>
      new_axes [0, 1] ''rtt_s'' ''RTT short (ms)'' =
   Inr \<lparr>lines = [\<lparr>xdata = [0, 1], ydata = [10,
    110], style = Solid, draw = Default, label = Some ''rtt_s avg''\<rparr>,
                 \<lparr>xdata = [0, 1], ydata = [11, 111], style = Dashed, draw = Default, label = Some ''rtt_s min''\<rparr>,
                 \<lparr>xdata = [0, 1], ydata = [12, 112], style = Dotted, draw = Default, label = Some ''rtt_s max''\<rparr>],
        ylabel = ''RTT short (ms)'', xlabel = [], grid_on = True, legend_on = True\<rparr>"
  using plot_triplet_three_series [of "''rtt_s''" "''ms (avg/min/max)''"
      "\<lparr>global_data = Some (Arr2 77 [map real [0..<77], map real [100..<177]])\<rparr>" 77
      "[map real [0..<77], map real [100..<177]]" "[0, 1]" new_axes "''RTT short (ms)''"]
  by (simp add: TRIPLETS_def needed_eq new_axes_def)

section \<open>Where the chart steps take the table from\<close>

text \<open>
  Claim C9, as stated, fails: \<open>plot_triplet\<close> does not get the table as a parameter.
  Two calls with the same arguments plot different series when the global table
  differs.
\<close>

theorem plot_triplet_global_counterexample:
  "plot_triplet \<lparr>global_data = Some (Arr2 77 [map real [0..<77]])\<rparr> new_axes [0] ''rtt_s'' ''RTT short (ms)''
   \<noteq> plot_triplet \<lparr>global_data = Some (Arr2 77 [map real [100..<177]])\<rparr> new_axes [0] ''rtt_s'' ''RTT short (ms)''"
  by (simp add: plot_triplet_Arr2 [where c = 77 and i = 10 and j = 11 and k = 12] new_axes_def)

text \<open>
  Claim C9, amended. \<open>plot_triplet\<close> reads the table from the module-level variable
  that \<open>main\<close> assigns: with the variable unbound it raises \<^verbatim>\<open>NameError\<close> whatever its
  arguments are; with a validated table there, the x-values of the three series it
  adds are the parameter \<open>t\<close> and their y-values are the average, minimum and maximum
  columns of the global table. Two calls with the same arguments, each with a
  validated global table, give the same result exactly when the two tables agree on
  those three columns.
\<close>

theorem plot_triplet_reads_global_table:
  "(global_data g = None \<longrightarrow>
      plot_triplet g ax t base yl = Inl (NameError ''name 'data' is not defined''))
   \<and> ((base, unit) \<in> set TRIPLETS \<and> global_data g = Some (Arr2 c rows) \<and> needed < c
        \<and> length t = length rows \<longrightarrow>
      (\<exists>ax' i. plot_triplet g ax t base yl = Inr ax'
         \<and> COLS_get (base @ ''_avg'') = Some i
         \<and> map xdata (drop (length (lines ax)) (lines ax')) = [t, t, t]
         \<and> map ydata (drop (length (lines ax)) (lines ax'))
             = [map (\<lambda>row. row ! i) rows, map (\<lambda>row. row ! (i + 1)) rows,
                map (\<lambda>row. row ! (i + 2)) rows]
         \<and> (\<forall>g2 c2 rows2.
               global_data g2 = Some (Arr2 c2 rows2) \<and> needed < c2 \<and> length t = length rows2 \<longrightarrow>
               (plot_triplet g2 ax t base yl = plot_triplet g ax t base yl
                \<longleftrightarrow> map (\<lambda>row. row ! i) rows2 = map (\<lambda>row. row ! i) rows
                    \<and> map (\<lambda>row. row ! (i + 1)) rows2 = map (\<lambda>row. row ! (i + 1)) rows
                    \<and> map (\<lambda>row. row ! (i + 2)) rows2 = map (\<lambda>row. row ! (i + 2)) rows))))"
proof (intro conjI impI)
  assume "global_data g = None"
  then show "plot_triplet g ax t base yl = Inl (NameError ''name 'data' is not defined'')"
    by (simp add: plot_triplet_def read_global_data_def)
next
  assume a: "(base, unit) \<in> set TRIPLETS \<and> global_data g = Some (Arr2 c rows) \<and> needed < c
        \<and> length t = length rows"
  from TRIPLETS_cols [of base unit] a obtain i where i: "COLS_get (base @ ''_avg'') = Some i"
      "COLS_get (base @ ''_min'') = Some (i + 1)" "COLS_get (base @ ''_max'') = Some (i + 2)"
      "i + 2 \<le> 76"
    by blast
  from i(4) a have lt: "i < c" "i + 1 < c" "i + 2 < c"
    by (simp_all add: needed_eq)
  from a have g: "global_data g = Some (Arr2 c rows)" and len: "length t = length rows"
    by simp_all
  define series where "series = (\<lambda>rs :: real list list.
      [\<lparr>xdata = t, ydata = map (\<lambda>row. row ! i) rs, style = Solid, draw = Default,
        label = Some (base @ '' avg'')\<rparr>,
       \<lparr>xdata = t, ydata = map (\<lambda>row. row ! (i + 1)) rs, style = Dashed, draw = Default,
        label = Some (base @ '' min'')\<rparr>,
       \<lparr>xdata = t, ydata = map (\<lambda>row. row ! (i + 2)) rs, style = Dotted, draw = Default,
        label = Some (base @ '' max'')\<rparr>])"
  define result where "result = (\<lambda>rs. ax\<lparr>lines := lines ax @ series rs,
      ylabel := yl, grid_on := True, legend_on := True\<rparr>)"
  have eq: "plot_triplet g ax t base yl = Inr (result rows)"
    unfolding result_def series_def
    by (rule plot_triplet_Arr2 [OF g len i(1) lt(1) i(2) lt(2) i(3) lt(3)])
  have xs: "map xdata (drop (length (lines ax)) (lines (result rows))) = [t, t, t]"
    by (simp add: result_def series_def)
  have ys: "map ydata (drop (length (lines ax)) (lines (result rs)))
             = [map (\<lambda>row. row ! i) rs, map (\<lambda>row. row ! (i + 1)) rs,
                map (\<lambda>row. row ! (i + 2)) rs]" for rs
    by (simp add: result_def series_def)
  have two: "plot_triplet g2 ax t base yl = plot_triplet g ax t base yl
        \<longleftrightarrow> map (\<lambda>row. row ! i) rows2 = map (\<lambda>row. row ! i) rows
            \<and> map (\<lambda>row. row ! (i + 1)) rows2 = map (\<lambda>row. row ! (i + 1)) rows
            \<and> map (\<lambda>row. row ! (i + 2)) rows2 = map (\<lambda>row. row ! (i + 2)) rows"
    if b: "global_data g2 = Some (Arr2 c2 rows2) \<and> needed < c2 \<and> length t = length rows2"
    for g2 :: globals and c2 rows2
  proof -
    from i(4) b have lt2: "i < c2" "i + 1 < c2" "i + 2 < c2"
      by (simp_all add: needed_eq)
    from b have g2: "global_data g2 = Some (Arr2 c2 rows2)" and len2: "length t = length rows2"
      by simp_all
    have eq2: "plot_triplet g2 ax t base yl = Inr (result rows2)"
      unfolding result_def series_def
      by (rule plot_triplet_Arr2 [OF g2 len2 i(1) lt2(1) i(2) lt2(2) i(3) lt2(3)])
    show ?thesis
    proof
      assume "plot_triplet g2 ax t base yl = plot_triplet g ax t base yl"
      with eq eq2 have "result rows2 = result rows" by simp
      then have "map ydata (drop (length (lines ax)) (lines (result rows2)))
          = map ydata (drop (length (lines ax)) (lines (result rows)))"
        by simp
      then show "map (\<lambda>row. row ! i) rows2 = map (\<lambda>row. row ! i) rows
            \<and> map (\<lambda>row. row ! (i + 1)) rows2 = map (\<lambda>row. row ! (i + 1)) rows
            \<and> map (\<lambda>row. row ! (i + 2)) rows2 = map (\<lambda>row. row ! (i + 2)) rows"
        by (simp only: ys list.inject)
    next
      assume "map (\<lambda>row. row ! i) rows2 = map (\<lambda>row. row ! i) rows
            \<and> map (\<lambda>row. row ! (i + 1)) rows2 = map (\<lambda>row. row ! (i + 1)) rows
            \<and> map (\<lambda>row. row ! (i + 2)) rows2 = map (\<lambda>row. row ! (i + 2)) rows"
      then have "result rows2 = result rows"
        by (simp add: result_def series_def)
      with eq eq2 show "plot_triplet g2 ax t base yl = plot_triplet g ax t base yl"
        by simp
    qed
  qed
  show "\<exists>ax' i. plot_triplet g ax t base yl = Inr ax'
         \<and> COLS_get (base @ ''_avg'') = Some i
         \<and> map xdata (drop (length (lines ax)) (lines ax')) = [t, t, t]
         \<and> map ydata (drop (length (lines ax)) (lines ax'))
             = [map (\<lambda>row. row ! i) rows, map (\<lambda>row. row ! (i + 1)) rows,
                map (\<lambda>row. row ! (i + 2)) rows]
         \<and> (\<forall>g2 c2 rows2.
               global_data g2 = Some (Arr2 c2 rows2) \<and> needed < c2 \<and> length t = length rows2 \<longrightarrow>
               (plot_triplet g2 ax t base yl = plot_triplet g ax t base yl
                \<longleftrightarrow> map (\<lambda>row. row ! i) rows2 = map (\<lambda>row. row ! i) rows
                    \<and> map (\<lambda>row. row ! (i + 1)) rows2 = map (\<lambda>row. row ! (i + 1)) rows
                    \<and> map (\<lambda>row. row ! (i + 2)) rows2 = map (\<lambda>row. row ! (i + 2)) rows))"
  proof (intro exI conjI allI impI)
    show "plot_triplet g ax t base yl = Inr (result rows)" by (rule eq)
    show "COLS_get (base @ ''_avg'') = Some i" by (rule i(1))
    show "map xdata (drop (length (lines ax)) (lines (result rows))) = [t, t, t]" by (rule xs)
    show "map ydata (drop (length (lines ax)) (lines (result rows)))
             = [map (\<lambda>row. row ! i) rows, map (\<lambda>row. row ! (i + 1)) rows,
                map (\<lambda>row. row ! (i + 2)) rows]" by (rule ys)
    fix g2 :: globals and c2 rows2
    assume "global_data g2 = Some (Arr2 c2 rows2) \<and> needed < c2 \<and> length t = length rows2"
    then show "plot_triplet g2 ax t base yl = plot_triplet g ax t base yl
                \<longleftrightarrow> map (\<lambda>row. row ! i) rows2 = map (\<lambda>row. row ! i) rows
                    \<and> map (\<lambda>row. row ! (i + 1)) rows2 = map (\<lambda>row. row ! (i + 1)) rows
                    \<and> map (\<lambda>row. row ! (i + 2)) rows2 = map (\<lambda>row. row ! (i + 2)) rows"
      by (rule two)
  qed
qed

text \<open>The unbound global; then the triplet \<open>rtt_s\<close> (columns 10, 11, 12) with three
  global tables of one row: the second differs from the first in column 10 and gives
  another result, the third differs from the first only in column 0 and gives the
  same result.\<close>

theorem plot_triplet_reads_global_table_witness:
  "plot_triplet \<lparr>global_data = None\<rparr> new_axes [0] ''rtt_s'' ''RTT short (ms)''
     = Inl (NameError ''name 'data' is not defined'')
   \<and> (\<exists>ax'. plot_triplet \<lparr>global_data = Some (Arr2 77 [map real [100..<177]])\<rparr> new_axes [0]
                ''rtt_s'' ''RTT short (ms)'' = Inr ax'
          \<and> map xdata (lines ax') = [[0], [0], [0]]
          \<and> map ydata (lines ax') = [[110], [111], [112]])
   \<and> plot_triplet \<lparr>global_data = Some (Arr2 77 [(map real [100..<177])[10 := 0]])\<rparr> new_axes [0]
        ''rtt_s'' ''RTT short (ms)''
      \<noteq> plot_triplet \<lparr>global_data = Some (Arr2 77 [map real [100..<177]])\<rparr> new_axes [0]
           ''rtt_s'' ''RTT short (ms)''
   \<and> plot_triplet \<lparr>global_data = Some (Arr2 77 [(map real [100..<177])[0 := 0]])\<rparr> new_axes [0]
        ''rtt_s'' ''RTT short (ms)''
      = plot_triplet \<lparr>global_data = Some (Arr2 77 [map real [100..<177]])\<rparr> new_axes [0]
           ''rtt_s'' ''RTT short (ms)''"
proof -
  let ?rows = "[map real [100..<177]]"
  let ?g = "\<lparr>global_data = Some (Arr2 77 ?rows)\<rparr>"
  note u = plot_triplet_reads_global_table [of "\<lparr>global_data = None\<rparr>" new_axes "[0]" "''rtt_s''"
      "''RTT short (ms)''" "''ms (avg/min/max)''" 77 "[]"]
  note v = plot_triplet_reads_global_table [of ?g new_axes "[0]" "''rtt_s''" "''RTT short (ms)''"
      "''ms (avg/min/max)''" 77 ?rows]
  have 1: "plot_triplet \<lparr>global_data = None\<rparr> new_axes [0] ''rtt_s'' ''RTT short (ms)''
     = Inl (NameError ''name 'data' is not defined'')"
    using u by simp
  have hyp: "(''rtt_s'', ''ms (avg/min/max)'') \<in> set TRIPLETS \<and> global_data ?g = Some (Arr2 77 ?rows)
      \<and> needed < 77 \<and> length [0::real] = length ?rows"
    by (simp add: TRIPLETS_def needed_eq)
  note w = v [THEN conjunct2, THEN mp, OF hyp]
  from w obtain ax' where "\<exists>i. plot_triplet ?g new_axes [0] ''rtt_s'' ''RTT short (ms)'' = Inr ax'
         \<and> COLS_get (''rtt_s'' @ ''_avg'') = Some i
         \<and> map xdata (drop (length (lines new_axes)) (lines ax')) = [[0], [0], [0]]
         \<and> map ydata (drop (length (lines new_axes)) (lines ax'))
             = [map (\<lambda>row. row ! i) ?rows, map (\<lambda>row. row ! (i + 1)) ?rows,
                map (\<lambda>row. row ! (i + 2)) ?rows]
         \<and> (\<forall>g2 c2 rows2.
               global_data g2 = Some (Arr2 c2 rows2) \<and> needed < c2 \<and> length [0::real] = length rows2 \<longrightarrow>
               (plot_triplet g2 new_axes [0] ''rtt_s'' ''RTT short (ms)''
                  = plot_triplet ?g new_axes [0] ''rtt_s'' ''RTT short (ms)''
                \<longleftrightarrow> map (\<lambda>row. row ! i) rows2 = map (\<lambda>row. row ! i) ?rows
                    \<and> map (\<lambda>row. row ! (i + 1)) rows2 = map (\<lambda>row. row ! (i + 1)) ?rows
                    \<and> map (\<lambda>row. row ! (i + 2)) rows2 = map (\<lambda>row. row ! (i + 2)) ?rows))" ..
  then obtain i where big: "plot_triplet ?g new_axes [0] ''rtt_s'' ''RTT short (ms)'' = Inr ax'
         \<and> COLS_get (''rtt_s'' @ ''_avg'') = Some i
         \<and> map xdata (drop (length (lines new_axes)) (lines ax')) = [[0], [0], [0]]
         \<and> map ydata (drop (length (lines new_axes)) (lines ax'))
             = [map (\<lambda>row. row ! i) ?rows, map (\<lambda>row. row ! (i + 1)) ?rows,
                map (\<lambda>row. row ! (i + 2)) ?rows]
         \<and> (\<forall>g2 c2 rows2.
               global_data g2 = Some (Arr2 c2 rows2) \<and> needed < c2 \<and> length [0::real] = length rows2 \<longrightarrow>
               (plot_triplet g2 new_axes [0] ''rtt_s'' ''RTT short (ms)''
                  = plot_triplet ?g new_axes [0] ''rtt_s'' ''RTT short (ms)''
                \<longleftrightarrow> map (\<lambda>row. row ! i) rows2 = map (\<lambda>row. row ! i) ?rows
                    \<and> map (\<lambda>row. row ! (i + 1)) rows2 = map (\<lambda>row. row ! (i + 1)) ?rows
                    \<and> map (\<lambda>row. row ! (i + 2)) rows2 = map (\<lambda>row. row ! (i + 2)) ?rows))" ..
  note r = big [THEN conjunct1]
  note i = big [THEN conjunct2, THEN conjunct1]
  note xs = big [THEN conjunct2, THEN conjunct2, THEN conjunct1]
  note ys = big [THEN conjunct2, THEN conjunct2, THEN conjunct2, THEN conjunct1]
  note two = big [THEN conjunct2, THEN conjunct2, THEN conjunct2, THEN conjunct2]
  from i have i10: "i = 10" by simp
  have 2: "\<exists>ax'. plot_triplet ?g new_axes [0] ''rtt_s'' ''RTT short (ms)'' = Inr ax'
          \<and> map xdata (lines ax') = [[0], [0], [0]]
          \<and> map ydata (lines ax') = [[110], [111], [112]]"
    using r xs ys by (simp add: i10 new_axes_def)
  from two [rule_format, of "\<lparr>global_data = Some (Arr2 77 [(map real [100..<177])[10 := 0]])\<rparr>" 77
      "[(map real [100..<177])[10 := 0]]"]
  have 3: "plot_triplet \<lparr>global_data = Some (Arr2 77 [(map real [100..<177])[10 := 0]])\<rparr> new_axes [0]
        ''rtt_s'' ''RTT short (ms)''
      \<noteq> plot_triplet ?g new_axes [0] ''rtt_s'' ''RTT short (ms)''"
    by (simp add: i10 needed_eq)
  from two [rule_format, of "\<lparr>global_data = Some (Arr2 77 [(map real [100..<177])[0 := 0]])\<rparr>" 77
      "[(map real [100..<177])[0 := 0]]"]
  have 4: "plot_triplet \<lparr>global_data = Some (Arr2 77 [(map real [100..<177])[0 := 0]])\<rparr> new_axes [0]
        ''rtt_s'' ''RTT short (ms)''
      = plot_triplet ?g new_axes [0] ''rtt_s'' ''RTT short (ms)''"
    by (simp add: i10 needed_eq)
  show ?thesis
    by (intro conjI) (rule 1, rule 2, rule 3, rule 4)
qed

section \<open>The tail-metrics page\<close>

lemma replicate_7: "replicate 7 x = [x, x, x, x, x, x, x]"
  by (simp add: eval_nat_numeral)

lemma at_last_snoc:
  "f ax = Inr ax' \<Longrightarrow> axs fig = pre @ [ax] \<Longrightarrow> at_last f fig = Inr (fig\<lparr>axs := pre @ [ax']\<rparr>)"
  by (simp add: at_last_def at_axis_def nth_append)

text \<open>
  Claim C1 says the tenth page draws thirteen series, one per row. The code lists
  thirteen keys but creates the page with seven rows and plots
  \<^verbatim>\<open>zip(axes, tail_keys[:rows])\<close>: on every validated table the page has seven charts
  with one series each, the first seven keys (columns 64 to 70); the other six keys
  are never drawn on it.
\<close>

theorem tail_page_draws_seven_charts:
  assumes "global_data g = Some (Arr2 c rows)" and "needed < c" and "length t = length rows"
  shows "\<exists>fig. page10 g t = Inr fig
           \<and> suptitle fig = ''Tail metrics''
           \<and> length (axs fig) = 7
           \<and> map ylabel (axs fig) = take 7 tail_keys
           \<and> map (\<lambda>ax. map ydata (lines ax)) (axs fig)
               = map (\<lambda>j. [map (\<lambda>row. row ! j) rows]) [64, 65, 66, 67, 68, 69, 70]
           \<and> length (concat (map lines (axs fig))) = 7
           \<and> length tail_keys = 13"
proof -
  from assms(2) have c: "76 < c" by (simp add: needed_eq)
  note single = plot_single_Arr2 [OF assms(1) _ _ assms(3)]
  show ?thesis
    using c
    by (simp add: page10_def page_def replicate_7 tail_keys_def single new_axes_def
        at_last_snoc [where pre = "[a, b, c, d, e, f]" for a b c d e f, simplified]
        xlabel_time_def set_xlabel_def)
qed


text \<open>The page on a one-row table whose cells are the column numbers.\<close>

theorem tail_page_draws_seven_charts_witness:
  "\<exists>fig. page10 \<lparr>global_data = Some (Arr2 77 [map real [0..<77]])\<rparr> [0] = Inr fig
      \<and> suptitle fig = ''Tail metrics''
      \<and> length (axs fig) = 7
      \<and> map ylabel (axs fig) = [''dr_minus_loss'', ''time_delta_norm'', ''rtt_rate_scalar'',
            ''loss_norm'', ''acked_rate_norm'', ''dr_w_ratio'', ''queue_delay_proxy'']
      \<and> map (\<lambda>ax. map ydata (lines ax)) (axs fig) = [[[64]], [[65]], [[66]], [[67]], [[68]], [[69]], [[70]]]
      \<and> length (concat (map lines (axs fig))) = 7"
  using tail_page_draws_seven_charts [of "\<lparr>global_data = Some (Arr2 77 [map real [0..<77]])\<rparr>" 77
      "[map real [0..<77]]" "[0]"]
  by (simp add: needed_eq tail_keys_def)

section \<open>Facts about the text reader and the loader\<close>

lemma convert_fields_Inr:
  "convert_fields conv r c ws = Inr vs \<Longrightarrow> length vs = length ws \<and> (\<forall>w \<in> set ws. conv w \<noteq> None)"
proof (induction ws arbitrary: c vs)
  case Nil
  then show ?case by simp
next
  case (Cons w ws)
  then show ?case
    by (auto simp add: bindE_def split: option.splits sum.splits)
qed

lemma read_rows_Inr:
  "read_rows conv n r ls = Inr cells \<Longrightarrow>
     length cells = length ls \<and> (\<forall>row \<in> set cells. length row = n)
     \<and> (\<forall>ws \<in> set ls. length ws = n \<and> (\<forall>w \<in> set ws. conv w \<noteq> None))"
proof (induction ls arbitrary: r cells)
  case Nil
  then show ?case by simp
next
  case (Cons ws ls)
  from Cons.prems have n: "length ws = n"
    by (simp split: if_splits)
  with Cons.prems obtain vs vss where vs: "convert_fields conv r 0 ws = Inr vs"
      and vss: "read_rows conv n (r + 1) ls = Inr vss" and cells: "cells = vs # vss"
    by (auto simp add: bindE_def split: sum.splits)
  from convert_fields_Inr [OF vs] Cons.IH [OF vss] n cells show ?case
    by simp
qed

lemma parse_table_Inr:
  assumes "parse_table conv content = Inr (c, cells)"
  shows "\<forall>row \<in> set cells. length row = c" and "length cells = length (data_lines content)"
    and "cells = [] \<Longrightarrow> c = 1"
proof -
  from assms have rr: "read_rows conv c 0 (data_lines content) = Inr cells"
    and c: "c = (case data_lines content of [] \<Rightarrow> 1 | ws # _ \<Rightarrow> length ws)"
    by (auto simp add: parse_table_def Let_def bindE_def split: sum.splits)
  from read_rows_Inr [OF rr] show "\<forall>row \<in> set cells. length row = c"
    and len: "length cells = length (data_lines content)"
    by simp_all
  show "cells = [] \<Longrightarrow> c = 1"
    using len c by (simp split: list.splits)
qed

lemma loadtxt_parsed:
  "open_text path = Inr content \<Longrightarrow> parse_table conv content = Inr (c, cells) \<Longrightarrow>
     loadtxt conv open_text path = Inr (squeeze c cells)"
  by (simp add: loadtxt_def)

lemma load_data_Inl:
  "loadtxt conv open_text path = Inl e \<Longrightarrow>
     load_data conv open_text path = (Inl 1, [''Error reading '' @ quote @ path @ quote @ '': '' @ exn_str e])"
  by (simp add: load_data_def)

lemma load_data_Arr1:
  "loadtxt conv open_text path = Inr (Arr1 xs) \<Longrightarrow> load_data conv open_text path = (Inr (Arr2 (length xs) [xs]), [])"
  by (simp add: load_data_def ndim_def)

lemma load_data_Arr2:
  "loadtxt conv open_text path = Inr (Arr2 c rows) \<Longrightarrow> load_data conv open_text path = (Inr (Arr2 c rows), [])"
  by (simp add: load_data_def ndim_def)

lemma load_data_Arr0:
  "loadtxt conv open_text path = Inr (Arr0 v) \<Longrightarrow> load_data conv open_text path = (Inr (Arr0 v), [])"
  by (simp add: load_data_def ndim_def)

lemma load_data_table:
  assumes "open_text path = Inr content" and "parse_table conv content = Inr (c, cells)"
    and "cells \<noteq> []" and "2 \<le> c"
  shows "load_data conv open_text path = (Inr (Arr2 c cells), [])"
proof (cases "length cells = 1")
  case True
  then obtain row where row: "cells = [row]"
    by (cases cells) auto
  with parse_table_Inr(1) [OF assms(2)] have "length row = c" by simp
  with assms(4) row have "squeeze c cells = Arr1 row" "Arr2 (length row) [row] = Arr2 c cells"
    by (simp_all add: squeeze_def)
  with loadtxt_parsed [where open_text = open_text and path = path, OF assms(1,2)] load_data_Arr1 [of conv open_text path row] show ?thesis
    by simp
next
  case False
  with assms(4) have "squeeze c cells = Arr2 c cells"
    by (simp add: squeeze_def)
  with loadtxt_parsed [where open_text = open_text and path = path, OF assms(1,2)] load_data_Arr2 [of conv open_text path c cells] show ?thesis
    by simp
qed

lemma load_data_column:
  assumes "open_text path = Inr content" and "parse_table conv content = Inr (1, cells)"
    and "2 \<le> length cells"
  shows "load_data conv open_text path = (Inr (Arr2 (length cells) [map hd cells]), [])"
proof -
  from assms(3) have "squeeze 1 cells = Arr1 (map hd cells)"
    by (simp add: squeeze_def)
  with loadtxt_parsed [where open_text = open_text and path = path, OF assms(1,2)] load_data_Arr1 [of conv open_text path "map hd cells"] show ?thesis
    by simp
qed


section \<open>Files of one data line\<close>

text \<open>A file of one data line with at least two fields loads as a table of one row,
  and the time column picked from it is a sequence of length one.\<close>

lemma single_row_file_loads_as_table:
  assumes "open_text path = Inr content" and "parse_table conv content = Inr (n, [row])" and "2 \<le> n"
  shows "load_data conv open_text path = (Inr (Arr2 n [row]), [])"
    and "pick (Arr2 n [row]) ''time'' = Inr [row ! 0]"
proof -
  show "load_data conv open_text path = (Inr (Arr2 n [row]), [])"
    using load_data_table [where open_text = open_text and path = path and content = content and conv = conv and c = n and cells = "[row]"] assms by simp
  show "pick (Arr2 n [row]) ''time'' = Inr [row ! 0]"
    using assms(3) by (simp add: pick_Arr2 [where j = 0])
qed

text \<open>
  Claim C3 says this of every file of one data line. The loader reshapes only a
  one-dimensional array; a file whose single line holds a single field is read by the
  library as a zero-dimensional array, which the loader returns as it is. On the file
  holding just \<^verbatim>\<open>5\<close> the loader returns a scalar, \<open>pick\<close> raises on it, and the run
  ends in the validator with an \<^verbatim>\<open>IndexError\<close> nobody catches, not with the
  column-count message.
\<close>

theorem single_value_file_loads_as_scalar:
  "load_data [''5'' \<mapsto> 5]
      (\<lambda>p. if p = ''one.txt'' then Inr ''5\<newline>'' else Inl (FileNotFoundError (p @ '' not found.'')))
      ''one.txt'' = (Inr (Arr0 5), [])
   \<and> pick (Arr0 5) ''time'' = Inl (IndexError ''too many indices for array'')
   \<and> ensure_cols (Arr0 5) = Inl (IndexError ''tuple index out of range'')
   \<and> main [''5'' \<mapsto> 5]
        (\<lambda>p. if p = ''one.txt'' then Inr ''5\<newline>'' else Inl (FileNotFoundError (p @ '' not found.'')))
        \<lparr>arg_file = ''one.txt'', arg_out = None\<rparr>
       = \<lparr>stdout = [],
          stderr = [''Traceback (most recent call last):'', ''IndexError: tuple index out of range''],
          exit_status = 1, document = None\<rparr>"
proof -
  let ?env = "\<lambda>p. if p = ''one.txt'' then Inr ''5\<newline>''
                 else Inl (FileNotFoundError (p @ '' not found.''))"
  have p: "parse_table [''5'' \<mapsto> 5] (''5\<newline>'') = Inr (1, [[5]])"
    by (simp add: parse_table_def data_lines_def line_fields_def is_newline_def is_space_def)
  have o: "?env ''one.txt'' = Inr ''5\<newline>''"
    by simp
  have l: "loadtxt [''5'' \<mapsto> 5] ?env ''one.txt'' = Inr (Arr0 5)"
    using loadtxt_parsed [where open_text = ?env and path = "''one.txt''", OF o p]
    by (simp add: squeeze_def)
  have ld: "load_data [''5'' \<mapsto> 5] ?env ''one.txt'' = (Inr (Arr0 5), [])"
    by (rule load_data_Arr0 [OF l])
  have pk: "pick (Arr0 5) ''time'' = Inl (IndexError ''too many indices for array'')"
    by (simp add: pick_def)
  have ec: "ensure_cols (Arr0 5) = Inl (IndexError ''tuple index out of range'')"
    by (simp add: ensure_cols_def shape_at_def)
  have m: "main [''5'' \<mapsto> 5] ?env \<lparr>arg_file = ''one.txt'', arg_out = None\<rparr>
       = \<lparr>stdout = [],
          stderr = [''Traceback (most recent call last):'', ''IndexError: tuple index out of range''],
          exit_status = 1, document = None\<rparr>"
    unfolding main_def by (simp add: ld ec uncaught_def traceback_def)
  show ?thesis
  proof (intro conjI)
    show "load_data [''5'' \<mapsto> 5] ?env ''one.txt'' = (Inr (Arr0 5), [])" by (rule ld)
    show "pick (Arr0 5) ''time'' = Inl (IndexError ''too many indices for array'')" by (rule pk)
    show "ensure_cols (Arr0 5) = Inl (IndexError ''tuple index out of range'')" by (rule ec)
    show "main [''5'' \<mapsto> 5] ?env \<lparr>arg_file = ''one.txt'', arg_out = None\<rparr>
       = \<lparr>stdout = [],
          stderr = [''Traceback (most recent call last):'', ''IndexError: tuple index out of range''],
          exit_status = 1, document = None\<rparr>" by (rule m)
  qed
qed

section \<open>A one-dimensional parse always becomes one row\<close>

text \<open>
  Claim C10. Whenever the library returns a one-dimensional array, the loader returns
  a table of exactly one row holding its cells. That happens for a file of one line
  and also for a file of N lines (N at least 2) with one field each: when opening the
  column file yields a text of N one-field lines and opening the row file yields a
  text of one line with the same N values, the column file is loaded as one row of N
  columns, the same table as the row file, so the loader does not tell a column from
  a row.
\<close>

theorem one_dimensional_parse_becomes_one_row:
  "(loadtxt conv open_text path = Inr (Arr1 xs) \<longrightarrow>
      load_data conv open_text path = (Inr (Arr2 (length xs) [xs]), []))
   \<and> (open_text col_path = Inr col_content \<and> parse_table conv col_content = Inr (1, map (\<lambda>v. [v]) vs)
        \<and> open_text row_path = Inr row_content \<and> parse_table conv row_content = Inr (length vs, [vs])
        \<and> 2 \<le> length vs \<longrightarrow>
      load_data conv open_text col_path = (Inr (Arr2 (length vs) [vs]), [])
      \<and> load_data conv open_text row_path = load_data conv open_text col_path)"
proof (intro conjI impI)
  assume "loadtxt conv open_text path = Inr (Arr1 xs)"
  then show "load_data conv open_text path = (Inr (Arr2 (length xs) [xs]), [])"
    by (rule load_data_Arr1)
next
  assume a: "open_text col_path = Inr col_content \<and> parse_table conv col_content = Inr (1, map (\<lambda>v. [v]) vs)
        \<and> open_text row_path = Inr row_content \<and> parse_table conv row_content = Inr (length vs, [vs])
        \<and> 2 \<le> length vs"
  have hd: "map (hd \<circ> (\<lambda>v. [v])) vs = vs"
    by (induction vs) simp_all
  from a load_data_column [where open_text = open_text and path = col_path and content = col_content and conv = conv and cells = "map (\<lambda>v. [v]) vs"]
  show col: "load_data conv open_text col_path = (Inr (Arr2 (length vs) [vs]), [])"
    by (simp add: hd)
  from a load_data_table [where open_text = open_text and path = row_path and content = row_content and conv = conv and c = "length vs" and cells = "[vs]"]
  show "load_data conv open_text row_path = load_data conv open_text col_path"
    by (simp add: col)
qed

text \<open>The values 1, 2, 3 as a column file and as a row file.\<close>

theorem one_dimensional_parse_becomes_one_row_witness:
  "load_data [''1'' \<mapsto> 1, ''2'' \<mapsto> 2, ''3'' \<mapsto> 3]
      (\<lambda>p. if p = ''col.txt'' then Inr ''1\<newline>2\<newline>3\<newline>''
           else if p = ''row.txt'' then Inr ''1 2 3\<newline>''
           else Inl (FileNotFoundError (p @ '' not found.'')))
      ''col.txt'' = (Inr (Arr2 3 [[1, 2, 3]]), [])
   \<and> load_data [''1'' \<mapsto> 1, ''2'' \<mapsto> 2, ''3'' \<mapsto> 3]
      (\<lambda>p. if p = ''col.txt'' then Inr ''1\<newline>2\<newline>3\<newline>''
           else if p = ''row.txt'' then Inr ''1 2 3\<newline>''
           else Inl (FileNotFoundError (p @ '' not found.'')))
      ''row.txt'' = (Inr (Arr2 3 [[1, 2, 3]]), [])"
proof -
  let ?conv = "[''1'' \<mapsto> 1::real, ''2'' \<mapsto> 2, ''3'' \<mapsto> 3]"
  let ?col = "''1\<newline>2\<newline>3\<newline>''"
  let ?row = "''1 2 3\<newline>''"
  let ?env = "\<lambda>p. if p = ''col.txt'' then Inr ?col
                 else if p = ''row.txt'' then Inr ?row
                 else Inl (FileNotFoundError (p @ '' not found.''))"
  have c: "parse_table ?conv ?col = Inr (1, map (\<lambda>v. [v]) [1, 2, 3])"
    by (simp add: parse_table_def data_lines_def line_fields_def is_newline_def is_space_def)
  have r: "parse_table ?conv ?row = Inr (length [1, 2, 3 :: real], [[1, 2, 3]])"
    by (simp add: parse_table_def data_lines_def line_fields_def is_newline_def is_space_def)
  have f: "?env ''col.txt'' = Inr ?col" "?env ''row.txt'' = Inr ?row"
    by simp_all
  have n: "2 \<le> length [1, 2, 3 :: real]"
    by simp
  note t = one_dimensional_parse_becomes_one_row [where conv = ?conv and open_text = ?env
      and path = "''col.txt''" and xs = "[]" and col_path = "''col.txt''" and col_content = ?col
      and vs = "[1, 2, 3]" and row_path = "''row.txt''" and row_content = ?row]
  have h: "?env ''col.txt'' = Inr ?col \<and> parse_table ?conv ?col = Inr (1, map (\<lambda>v. [v]) [1, 2, 3])
      \<and> ?env ''row.txt'' = Inr ?row \<and> parse_table ?conv ?row = Inr (length [1, 2, 3 :: real], [[1, 2, 3]])
      \<and> 2 \<le> length [1, 2, 3 :: real]"
    using f c r n by (intro conjI)
  note both = t [THEN conjunct2, THEN mp, OF h]
  have col: "load_data ?conv ?env ''col.txt'' = (Inr (Arr2 (length [1, 2, 3 :: real]) [[1, 2, 3]]), [])"
    by (rule both [THEN conjunct1])
  have row: "load_data ?conv ?env ''row.txt'' = load_data ?conv ?env ''col.txt''"
    by (rule both [THEN conjunct2])
  show ?thesis
    by (simp only: row col) simp
qed

section \<open>A file that cannot be loaded ends the run\<close>

lemma read_rows_fails:
  assumes "\<exists>ws \<in> set ls. length ws \<noteq> n \<or> (\<exists>w \<in> set ws. conv w = None)"
  shows "\<exists>e. read_rows conv n r ls = Inl e"
proof (cases "read_rows conv n r ls")
  case (Inl e)
  then show ?thesis by blast
next
  case (Inr cells)
  from read_rows_Inr [OF Inr] assms show ?thesis by blast
qed

lemma parse_table_fails:
  assumes "\<exists>ws \<in> set (data_lines content).
             (\<exists>w \<in> set ws. conv w = None) \<or> length ws \<noteq> length (hd (data_lines content))"
  shows "\<exists>e. parse_table conv content = Inl e"
proof -
  from assms obtain l ls where ls: "data_lines content = l # ls"
    by (cases "data_lines content") auto
  with assms have "\<exists>ws \<in> set (data_lines content). length ws \<noteq> length l \<or> (\<exists>w \<in> set ws. conv w = None)"
    by auto
  from read_rows_fails [OF this, of 0] obtain e where "read_rows conv (length l) 0 (data_lines content) = Inl e"
    by blast
  with ls show ?thesis
    by (simp add: parse_table_def)
qed

lemma main_load_failure:
  assumes "loadtxt conv open_text path = Inl e"
  shows "main conv open_text \<lparr>arg_file = path, arg_out = out\<rparr>
     = \<lparr>stdout = [], stderr = [''Error reading '' @ quote @ path @ quote @ '': '' @ exn_str e],
        exit_status = 1, document = None\<rparr>"
  by (simp add: main_def load_data_Inl [OF assms])

text \<open>
  Claim C8. When opening the input file raises (a missing file, for one), or one of
  its data lines holds a field that is not a number, or a data line has another
  number of fields than the first, the library call raises (the opener's own
  exception in the first case); the loader then prints one line to the error stream,
  \<^verbatim>\<open>Error reading '<path>': <cause>\<close>, naming the path and the exception's text, and the
  process exits with status 1, with nothing on standard output and no document.
\<close>

theorem unreadable_input_is_fatal:
  assumes "(\<exists>e0. open_text path = Inl e0)
     \<or> (\<exists>content. open_text path = Inr content
           \<and> (\<exists>ws \<in> set (data_lines content).
                 (\<exists>w \<in> set ws. conv w = None) \<or> length ws \<noteq> length (hd (data_lines content))))"
  shows "\<exists>e. loadtxt conv open_text path = Inl e
     \<and> (\<forall>e0. open_text path = Inl e0 \<longrightarrow> e = e0)
     \<and> load_data conv open_text path
         = (Inl 1, [''Error reading '' @ quote @ path @ quote @ '': '' @ exn_str e])
     \<and> main conv open_text \<lparr>arg_file = path, arg_out = out\<rparr>
         = \<lparr>stdout = [], stderr = [''Error reading '' @ quote @ path @ quote @ '': '' @ exn_str e],
            exit_status = 1, document = None\<rparr>"
proof -
  have "\<exists>e. loadtxt conv open_text path = Inl e \<and> (\<forall>e0. open_text path = Inl e0 \<longrightarrow> e = e0)"
    using assms
  proof
    assume "\<exists>e0. open_text path = Inl e0"
    then obtain e0 where "open_text path = Inl e0" ..
    then show ?thesis by (simp add: loadtxt_def)
  next
    assume "\<exists>content. open_text path = Inr content
           \<and> (\<exists>ws \<in> set (data_lines content).
                 (\<exists>w \<in> set ws. conv w = None) \<or> length ws \<noteq> length (hd (data_lines content)))"
    then obtain content where c: "open_text path = Inr content"
      and bad: "\<exists>ws \<in> set (data_lines content).
                 (\<exists>w \<in> set ws. conv w = None) \<or> length ws \<noteq> length (hd (data_lines content))"
      by blast
    from parse_table_fails [OF bad] obtain e where "parse_table conv content = Inl e"
      by blast
    with c show ?thesis by (simp add: loadtxt_def)
  qed
  then obtain e where e: "loadtxt conv open_text path = Inl e"
    and same: "\<forall>e0. open_text path = Inl e0 \<longrightarrow> e = e0"
    by blast
  from e same load_data_Inl [OF e] main_load_failure [OF e, of out] show ?thesis
    by blast
qed

text \<open>A missing file, a file with the field \<^verbatim>\<open>x\<close>, and a file whose second line is
  shorter than its first.\<close>

theorem unreadable_input_is_fatal_witness:
  "main [''1'' \<mapsto> 1, ''2'' \<mapsto> 2, ''3'' \<mapsto> 3]
        (\<lambda>p. Inl (FileNotFoundError (p @ '' not found.'')))
        \<lparr>arg_file = ''gone.txt'', arg_out = None\<rparr>
     = \<lparr>stdout = [], stderr = [''Error reading '' @ quote @ ''gone.txt'' @ quote @ '': gone.txt not found.''],
        exit_status = 1, document = None\<rparr>
   \<and> main [''1'' \<mapsto> 1, ''2'' \<mapsto> 2, ''3'' \<mapsto> 3] (\<lambda>p. Inr ''1 x 3\<newline>'')
        \<lparr>arg_file = ''bad.txt'', arg_out = None\<rparr>
     = \<lparr>stdout = [],
        stderr = [''Error reading '' @ quote @ ''bad.txt'' @ quote @ '': could not convert string ''
                  @ quote @ ''x'' @ quote @ '' to float64 at row 0, column 2.''],
        exit_status = 1, document = None\<rparr>
   \<and> main [''1'' \<mapsto> 1, ''2'' \<mapsto> 2, ''3'' \<mapsto> 3] (\<lambda>p. Inr ''1 2\<newline>3\<newline>'')
        \<lparr>arg_file = ''ragged.txt'', arg_out = None\<rparr>
     = \<lparr>stdout = [],
        stderr = [''Error reading '' @ quote @ ''ragged.txt'' @ quote
                  @ '': the number of columns changed from 2 to 1 at row 2; use `usecols` to select a subset and avoid this error''],
        exit_status = 1, document = None\<rparr>"
proof -
  let ?conv = "[''1'' \<mapsto> 1::real, ''2'' \<mapsto> 2, ''3'' \<mapsto> 3]"
  let ?none = "None :: string option"
  let ?gone = "\<lambda>p. Inl (FileNotFoundError (p @ '' not found.'')) :: exn + string"
  let ?bad = "\<lambda>p::string. Inr ''1 x 3\<newline>'' :: exn + string"
  let ?ragged = "\<lambda>p::string. Inr ''1 2\<newline>3\<newline>'' :: exn + string"
  have d2: "data_lines ''1 x 3\<newline>'' = [[''1'', ''x'', ''3'']]"
    and d3: "data_lines ''1 2\<newline>3\<newline>'' = [[''1'', ''2''], [''3'']]"
    by (simp_all add: data_lines_def line_fields_def is_newline_def is_space_def)
  have l1: "loadtxt ?conv ?gone ''gone.txt'' = Inl (FileNotFoundError ''gone.txt not found.'')"
    by (simp add: loadtxt_def)
  have l2: "loadtxt ?conv ?bad ''bad.txt''
      = Inl (ValueError (''could not convert string '' @ quote @ ''x'' @ quote @ '' to float64 at row 0, column 2.''))"
    by (simp add: loadtxt_def parse_table_def d2 str_nat.simps digit_char_def)
  have l3: "loadtxt ?conv ?ragged ''ragged.txt''
      = Inl (ValueError ''the number of columns changed from 2 to 1 at row 2; use `usecols` to select a subset and avoid this error'')"
    by (simp add: loadtxt_def parse_table_def d3 str_nat.simps digit_char_def)
  from unreadable_input_is_fatal [where open_text = ?gone and path = "''gone.txt''"
      and conv = ?conv and out = ?none] l1
  have 1: "main ?conv ?gone \<lparr>arg_file = ''gone.txt'', arg_out = None\<rparr>
     = \<lparr>stdout = [], stderr = [''Error reading '' @ quote @ ''gone.txt'' @ quote @ '': gone.txt not found.''],
        exit_status = 1, document = None\<rparr>"
    by simp
  from unreadable_input_is_fatal [where open_text = ?bad and path = "''bad.txt''"
      and conv = ?conv and out = ?none] l2
  have 2: "main ?conv ?bad \<lparr>arg_file = ''bad.txt'', arg_out = None\<rparr>
     = \<lparr>stdout = [],
        stderr = [''Error reading '' @ quote @ ''bad.txt'' @ quote @ '': could not convert string ''
                  @ quote @ ''x'' @ quote @ '' to float64 at row 0, column 2.''],
        exit_status = 1, document = None\<rparr>"
    by (simp add: d2)
  from unreadable_input_is_fatal [where open_text = ?ragged and path = "''ragged.txt''"
      and conv = ?conv and out = ?none] l3
  have 3: "main ?conv ?ragged \<lparr>arg_file = ''ragged.txt'', arg_out = None\<rparr>
     = \<lparr>stdout = [],
        stderr = [''Error reading '' @ quote @ ''ragged.txt'' @ quote
                  @ '': the number of columns changed from 2 to 1 at row 2; use `usecols` to select a subset and avoid this error''],
        exit_status = 1, document = None\<rparr>"
    by (simp add: d3)
  show ?thesis
    by (intro conjI) (rule 1, rule 2, rule 3)
qed

section \<open>The congestion-state page\<close>

lemma pts_to_poststep_nth:
  "Suc i < length ps \<Longrightarrow>
     pts_to_poststep ps ! (2 * i) = ps ! i
     \<and> pts_to_poststep ps ! (2 * i + 1) = (fst (ps ! Suc i), snd (ps ! i))
     \<and> pts_to_poststep ps ! (2 * i + 2) = ps ! Suc i"
proof (induction ps arbitrary: i rule: pts_to_poststep.induct)
  case 1
  then show ?case by simp
next
  case (2 p)
  then show ?case by simp
next
  case (3 x0 y0 x1 y1 ps)
  show ?case
  proof (cases i)
    case 0
    then show ?thesis by (cases ps) auto
  next
    case (Suc k)
    with "3.prems" have "Suc k < length ((x1, y1) # ps)" by simp
    from "3.IH" [OF this] Suc show ?thesis by simp
  qed
qed

lemma replicate_3: "replicate 3 x = [x, x, x]"
  by (simp add: eval_nat_numeral)

lemma at_axis_0: "f a = Inr a' \<Longrightarrow> axs fig = a # rest \<Longrightarrow> at_axis 0 f fig = Inr (fig\<lparr>axs := a' # rest\<rparr>)"
  by (simp add: at_axis_def)

lemma at_axis_1: "f b = Inr b' \<Longrightarrow> axs fig = a # b # rest \<Longrightarrow> at_axis 1 f fig = Inr (fig\<lparr>axs := a # b' # rest\<rparr>)"
  by (simp add: at_axis_def)

lemma at_axis_2: "f c = Inr c' \<Longrightarrow> axs fig = a # b # c # rest \<Longrightarrow> at_axis 2 f fig = Inr (fig\<lparr>axs := a # b # c' # rest\<rparr>)"
  by (simp add: at_axis_def eval_nat_numeral)

lemma page3_valid:
  assumes "global_data g = Some (Arr2 c rows)" and "76 < c" and "length t = length rows"
  shows "page3 g t = Inr \<lparr>suptitle = ''Congestion state'',
      axs = [\<lparr>lines = [\<lparr>xdata = t, ydata = map (\<lambda>row. row ! 8) rows, style = Solid, draw = Default, label = None\<rparr>],
               ylabel = ''snd_ssthresh'', xlabel = [], grid_on = True, legend_on = False\<rparr>,
             \<lparr>lines = [\<lparr>xdata = t, ydata = map (\<lambda>row. row ! 9) rows, style = Solid, draw = StepsPost, label = None\<rparr>],
               ylabel = ''ca_state'', xlabel = [], grid_on = True, legend_on = False\<rparr>,
             \<lparr>lines = [\<lparr>xdata = t, ydata = map (\<lambda>row. row ! 76) rows, style = Solid, draw = Default, label = None\<rparr>],
               ylabel = ''cwnd_rate'', xlabel = ''time (s)'', grid_on = True, legend_on = False\<rparr>]\<rparr>"
proof -
  note single = plot_single_Arr2 [OF assms(1) _ _ assms(3)]
  show ?thesis
    using assms
    by (simp add: page3_def page_def replicate_3 at_axis_def eval_nat_numeral single new_axes_def
        read_global_data_def pick_Arr2 ax_step_post_def grid_def set_ylabel_def set_xlabel_def
        xlabel_time_def)
qed


text \<open>
  Claim C5. On page 3 the chart labelled \<open>ca_state\<close> holds one series, drawn with
  draw style steps-post over the time column and the state column. For two adjacent
  samples \<open>(t0, s0)\<close> and \<open>(t1, s1)\<close> with \<open>t0 < t1\<close>, the path runs from \<open>(t0, s0)\<close>
  level to \<open>(t1, s0)\<close> and then upright to \<open>(t1, s1)\<close>: at every \<open>x\<close> with
  \<open>t0 \<le> x < t1\<close> the point \<open>(x, s0)\<close> is on the path, and it is the only point of
  these two strokes above \<open>x\<close>. The value is held, not interpolated.
\<close>

theorem ca_state_is_right_continuous_step:
  assumes "global_data g = Some (Arr2 c rows)" and "needed < c"
    and "pick (Arr2 c rows) ''time'' = Inr t"
    and "Suc i < length rows"
    and "t0 = rows ! i ! 0" and "s0 = rows ! i ! 9"
    and "t1 = rows ! Suc i ! 0" and "s1 = rows ! Suc i ! 9"
    and "t0 < t1" and "t0 \<le> x" and "x < t1"
  shows "\<exists>fig l. page3 g t = Inr fig
           \<and> ylabel (axs fig ! 1) = ''ca_state''
           \<and> lines (axs fig ! 1) = [l]
           \<and> draw l = StepsPost
           \<and> path_vertices l ! (2 * i) = (t0, s0)
           \<and> path_vertices l ! (2 * i + 1) = (t1, s0)
           \<and> path_vertices l ! (2 * i + 2) = (t1, s1)
           \<and> on_segment (t0, s0) (t1, s0) (x, s0)
           \<and> (\<forall>y. on_segment (t0, s0) (t1, s0) (x, y) \<or> on_segment (t1, s0) (t1, s1) (x, y)
                  \<longrightarrow> y = s0)"
proof -
  from assms(2) have c: "76 < c" by (simp add: needed_eq)
  with assms(3) have t: "t = map (\<lambda>row. row ! 0) rows"
    by (simp add: pick_Arr2 [where j = 0])
  then have len: "length t = length rows" by simp
  let ?l = "\<lparr>xdata = t, ydata = map (\<lambda>row. row ! 9) rows, style = Solid, draw = StepsPost,
             label = None\<rparr>"
  let ?ps = "zip t (map (\<lambda>row. row ! 9) rows)"
  have pv: "path_vertices ?l = pts_to_poststep ?ps"
    by (simp add: path_vertices_def)
  from assms(4) len have lt: "Suc i < length ?ps" by simp
  have z: "?ps ! i = (t0, s0)" "?ps ! Suc i = (t1, s1)"
    using assms(4-8) by (simp_all add: t)
  note n = pts_to_poststep_nth [OF lt]
  have v: "path_vertices ?l ! (2 * i) = (t0, s0)" "path_vertices ?l ! (2 * i + 1) = (t1, s0)"
    "path_vertices ?l ! (2 * i + 2) = (t1, s1)"
    using n by (simp_all only: pv z fst_conv snd_conv)
  have on: "on_segment (t0, s0) (t1, s0) (x, s0)"
    using assms(9-11) by (simp add: on_segment_def)
  have uniq: "\<forall>y. on_segment (t0, s0) (t1, s0) (x, y) \<or> on_segment (t1, s0) (t1, s1) (x, y)
                  \<longrightarrow> y = s0"
    using assms(9-11) by (auto simp add: on_segment_def)
  let ?fig = "\<lparr>suptitle = ''Congestion state'',
      axs = [\<lparr>lines = [\<lparr>xdata = t, ydata = map (\<lambda>row. row ! 8) rows, style = Solid, draw = Default, label = None\<rparr>],
               ylabel = ''snd_ssthresh'', xlabel = [], grid_on = True, legend_on = False\<rparr>,
             \<lparr>lines = [?l], ylabel = ''ca_state'', xlabel = [], grid_on = True, legend_on = False\<rparr>,
             \<lparr>lines = [\<lparr>xdata = t, ydata = map (\<lambda>row. row ! 76) rows, style = Solid, draw = Default, label = None\<rparr>],
               ylabel = ''cwnd_rate'', xlabel = ''time (s)'', grid_on = True, legend_on = False\<rparr>]\<rparr>"
  have p3: "page3 g t = Inr ?fig"
    by (rule page3_valid [OF assms(1) c len])
  show ?thesis
  proof (intro exI conjI)
    show "page3 g t = Inr ?fig" by (rule p3)
    show "ylabel (axs ?fig ! 1) = ''ca_state''" by simp
    show "lines (axs ?fig ! 1) = [?l]" by simp
    show "draw ?l = StepsPost" by simp
    show "path_vertices ?l ! (2 * i) = (t0, s0)" by (rule v(1))
    show "path_vertices ?l ! (2 * i + 1) = (t1, s0)" by (rule v(2))
    show "path_vertices ?l ! (2 * i + 2) = (t1, s1)" by (rule v(3))
    show "on_segment (t0, s0) (t1, s0) (x, s0)" by (rule on)
    show "\<forall>y. on_segment (t0, s0) (t1, s0) (x, y) \<or> on_segment (t1, s0) (t1, s1) (x, y)
                  \<longrightarrow> y = s0" by (rule uniq)
  qed
qed

text \<open>Two samples: state 0 at time 0, state 3 at time 1. At time 1/2 the chart shows
  0, not the interpolated 3/2.\<close>

theorem ca_state_is_right_continuous_step_witness:
  "\<exists>fig l. page3 \<lparr>global_data = Some (Arr2 77 [replicate 77 0, (replicate 77 0)[0 := 1, 9 := 3]])\<rparr>
              [0, 1] = Inr fig
      \<and> ylabel (axs fig ! 1) = ''ca_state''
      \<and> lines (axs fig ! 1) = [l]
      \<and> draw l = StepsPost
      \<and> path_vertices l ! 0 = (0, 0)
      \<and> path_vertices l ! 1 = (1, 0)
      \<and> path_vertices l ! 2 = (1, 3)
      \<and> on_segment (0, 0) (1, 0) (1 / 2, 0)
      \<and> \<not> on_segment (0, 0) (1, 0) (1 / 2, 3 / 2)"
proof -
  let ?rows = "[replicate 77 (0::real), (replicate 77 0)[0 := 1, 9 := 3]]"
  have pk: "pick (Arr2 77 ?rows) ''time'' = Inr [0, 1]"
    by (simp add: pick_Arr2 [where j = 0])
  have no: "\<not> on_segment (0, 0) (1, 0) (1 / 2, 3 / 2)"
    by (simp add: on_segment_def)
  from ca_state_is_right_continuous_step [of "\<lparr>global_data = Some (Arr2 77 ?rows)\<rparr>" 77 ?rows
      "[0, 1]" 0 0 0 1 3 "1 / 2"] pk no
  show ?thesis
    by (simp add: needed_eq numeral_2_eq_2; blast)
qed


section \<open>Every page on a validated table\<close>













section \<open>A valid input gives the ten-page document\<close>




end
